theory Spec2Isabelle
  imports Main
begin

section \<open>JavaScript values\<close>

text \<open>
  A JavaScript string is a sequence of UTF-16 code units; a code unit is modelled by its
  number. \<open>lit\<close> turns an ASCII literal of the source into its code units; a letter
  outside ASCII is written by its code unit (\<open>0xED\<close> for the accented i of the
  source's second \<open>frio\<close> literal, which the file stores precomposed, as the bytes
  C3 AD).
\<close>

type_synonym cadena = "nat list"

definition lit :: "string \<Rightarrow> cadena" where
  "lit s = map of_char s"

text \<open>
  The values the handlers build and read. \<open>JNum n\<close> is the Number whose value is the
  integer \<open>n\<close> (the two zeros are not told apart); the integers that are Numbers are
  those of \<open>es_Number\<close> below, every integer under \<open>2 ^ 53\<close> in magnitude among them.
  \<open>JNaN\<close> and \<open>JInf\<close> (\<open>True\<close> for the negative one) are the Numbers \<open>parseInt\<close>
  can also return. An object is the list of its own properties in insertion order.
\<close>

datatype json =
    JUndefined
  | JNull
  | JBool bool
  | JNum int
  | JNaN
  | JInf bool
  | JStr cadena
  | JArr "json list"
  | JObj "(string \<times> json) list"

type_synonym objeto = "(string \<times> json) list"

text \<open>Reading a property \<open>o.k\<close> of an object: \<open>undefined\<close> when the object has none.\<close>

definition campo :: "objeto \<Rightarrow> string \<Rightarrow> json" where
  "campo obj k = (case map_of obj k of None \<Rightarrow> JUndefined | Some v \<Rightarrow> v)"

text \<open>
  A default parameter (\<open>mensaje = '...'\<close>) and a destructuring default
  (\<open>{ activo = true }\<close>) replace exactly the value \<open>undefined\<close>.
\<close>

definition por_defecto :: "json \<Rightarrow> json \<Rightarrow> json" where
  "por_defecto v d = (if v = JUndefined then d else v)"

text \<open>\<open>Array.isArray(v) ? v.length : undefined\<close>.\<close>

fun total_de :: "json \<Rightarrow> json" where
  "total_de (JArr xs) = JNum (int (length xs))"
| "total_de v = JUndefined"

text \<open>
  \<open>res.json(body)\<close> sends \<open>JSON.stringify(body)\<close>, which leaves out every property whose
  value is \<open>undefined\<close>: these are the property names that reach the client.
\<close>

definition claves_emitidas :: "objeto \<Rightarrow> string list" where
  "claves_emitidas obj = map fst (filter (\<lambda>kv. snd kv \<noteq> JUndefined) obj)"

section \<open>ManejadorRespuestas\<close>

text \<open>
  The Express response \<open>res\<close> is the list of what has been written to it, oldest first:
  \<open>res.status(c).json(b)\<close> appends the status \<open>c\<close> with the body \<open>b\<close>.
\<close>

record respuesta =
  estado :: json
  cuerpo :: objeto

type_synonym res = "respuesta list"

definition status_json :: "res \<Rightarrow> json \<Rightarrow> objeto \<Rightarrow> res" where
  "status_json res c b = res @ [\<lparr>estado = c, cuerpo = b\<rparr>]"

definition mensaje_exito :: cadena where
  "mensaje_exito = lit ''Operaci'' @ [0xF3] @ lit ''n exitosa''"

definition exito :: "res \<Rightarrow> json \<Rightarrow> json \<Rightarrow> json \<Rightarrow> res" where
  "exito res datos mensaje0 codigoEstado0 =
     (let mensaje = por_defecto mensaje0 (JStr mensaje_exito);
          codigoEstado = por_defecto codigoEstado0 (JNum 200)
      in status_json res codigoEstado
           [(''exito'', JBool True),
            (''mensaje'', mensaje),
            (''datos'', datos),
            (''total'', total_de datos)])"

definition error :: "res \<Rightarrow> json \<Rightarrow> json \<Rightarrow> json \<Rightarrow> res" where
  "error res mensaje codigo0 codigoEstado0 =
     (let codigo = por_defecto codigo0 (JStr (lit ''ERROR_GENERICO''));
          codigoEstado = por_defecto codigoEstado0 (JNum 500)
      in status_json res codigoEstado
           [(''exito'', JBool False),
            (''mensaje'', mensaje),
            (''codigo'', codigo)])"

definition mensaje_validacion :: cadena where
  "mensaje_validacion = lit ''Datos de entrada inv'' @ [0xE1] @ lit ''lidos''"

definition validacionFallida :: "res \<Rightarrow> json \<Rightarrow> json \<Rightarrow> res" where
  "validacionFallida res errores mensaje0 =
     (let mensaje = por_defecto mensaje0 (JStr mensaje_validacion)
      in status_json res (JNum 400)
           [(''exito'', JBool False),
            (''mensaje'', mensaje),
            (''codigo'', JStr (lit ''VALIDACION_FALLIDA'')),
            (''errores'', errores)])"

definition noEncontrado :: "res \<Rightarrow> json \<Rightarrow> res" where
  "noEncontrado res mensaje0 =
     (let mensaje = por_defecto mensaje0 (JStr (lit ''Recurso no encontrado''))
      in status_json res (JNum 404)
           [(''exito'', JBool False),
            (''mensaje'', mensaje),
            (''codigo'', JStr (lit ''RECURSO_NO_ENCONTRADO''))])"

section \<open>The string and number built-ins the controller calls\<close>

text \<open>\<open>s.startsWith(p)\<close>.\<close>

definition startsWith :: "cadena \<Rightarrow> cadena \<Rightarrow> bool" where
  "startsWith s p = (take (length p) s = p)"

text \<open>
  \<open>s.replace(pat, rep)\<close> with a string pattern: the first occurrence of \<open>pat\<close>, searched
  from the left, is replaced; \<open>s\<close> is returned when there is none. (\<open>rep\<close> holds no
  dollar sign in the source, so no substitution pattern is expanded.)
\<close>

fun replace :: "cadena \<Rightarrow> cadena \<Rightarrow> cadena \<Rightarrow> cadena" where
  "replace [] pat rep = (if pat = [] then rep else [])"
| "replace (c # cs) pat rep =
     (if take (length pat) (c # cs) = pat then rep @ drop (length pat) (c # cs)
      else c # replace cs pat rep)"

text \<open>\<open>s.replace(/_/g, ' ')\<close>: every underscore becomes a space.\<close>

definition replace_guiones :: "cadena \<Rightarrow> cadena" where
  "replace_guiones s = map (\<lambda>c. if c = 0x5F then 0x20 else c) s"

text \<open>
  \<open>parseInt(s)\<close> with no radix, as ECMAScript defines it: leading white space and line
  terminators are skipped, one sign is read, a \<open>0x\<close> or \<open>0X\<close> prefix selects radix 16
  (radix 10 otherwise), the longest run of digits of the radix is the numeral and what
  follows it is ignored; with no digit the result is \<open>NaN\<close>.
\<close>

definition es_espacio :: "nat \<Rightarrow> bool" where
  "es_espacio c =
     (c \<in> {0x09, 0x0A, 0x0B, 0x0C, 0x0D, 0x20, 0xA0, 0x1680, 0x2028, 0x2029, 0x202F,
            0x205F, 0x3000, 0xFEFF}
      \<or> (0x2000 \<le> c \<and> c \<le> 0x200A))"

definition valor_digito :: "nat \<Rightarrow> nat option" where
  "valor_digito c =
     (if 0x30 \<le> c \<and> c \<le> 0x39 then Some (c - 0x30)
      else if 0x61 \<le> c \<and> c \<le> 0x7A then Some (c - 0x61 + 10)
      else if 0x41 \<le> c \<and> c \<le> 0x5A then Some (c - 0x41 + 10)
      else None)"

definition es_digito :: "nat \<Rightarrow> nat \<Rightarrow> bool" where
  "es_digito R c = (case valor_digito c of None \<Rightarrow> False | Some d \<Rightarrow> d < R)"

definition valor_numeral :: "nat \<Rightarrow> cadena \<Rightarrow> nat" where
  "valor_numeral R Z = foldl (\<lambda>a c. a * R + the (valor_digito c)) 0 Z"

text \<open>
  The Number for a mathematical integer, as the runtime rounds it: itself below
  \<open>2 ^ 53\<close>; above, the nearest value with 53 significant bits, a tie going to the
  even one, and an infinity when that value reaches \<open>2 ^ 1024\<close>.
\<close>

fun bits :: "nat \<Rightarrow> nat" where
  "bits n = (if n = 0 then 0 else Suc (bits (n div 2)))"

declare bits.simps [simp del]

definition redondear :: "nat \<Rightarrow> nat" where
  "redondear n =
     (if n < 2 ^ 53 then n
      else let e = bits n - 53; q = n div 2 ^ e; r = n mod 2 ^ e; h = 2 ^ (e - 1)
           in (if h < r \<or> (r = h \<and> odd q) then q + 1 else q) * 2 ^ e)"

definition numero :: "bool \<Rightarrow> nat \<Rightarrow> json" where
  "numero negativo n =
     (let m = redondear n
      in if 2 ^ 1024 \<le> m then JInf negativo
         else JNum (if negativo then - int m else int m))"

text \<open>The integers that are Numbers: those the rounding leaves as they are.\<close>

definition es_Number :: "int \<Rightarrow> bool" where
  "es_Number n = (redondear (nat \<bar>n\<bar>) = nat \<bar>n\<bar> \<and> \<bar>n\<bar> < 2 ^ 1024)"

definition parseInt :: "cadena \<Rightarrow> json" where
  "parseInt inputString =
     (let S = dropWhile es_espacio inputString;
          negativo = (S \<noteq> [] \<and> hd S = 0x2D);
          S1 = (if S \<noteq> [] \<and> (hd S = 0x2B \<or> hd S = 0x2D) then tl S else S);
          hex = (take 2 S1 = lit ''0x'' \<or> take 2 S1 = lit ''0X'');
          R = (if hex then 16 else 10);
          S2 = (if hex then drop 2 S1 else S1);
          Z = takeWhile (es_digito R) S2
      in if Z = [] then JNaN else numero negativo (valor_numeral R Z))"

text \<open>\<open>isNaN(v)\<close> for a value that is a Number.\<close>

definition isNaN :: "json \<Rightarrow> bool" where
  "isNaN v = (v = JNaN)"

text \<open>
  What the model takes from the runtime as it is, as parameters: the Unicode case
  mappings \<open>toUpperCase\<close> and \<open>toLowerCase\<close> of a string, and the printing of an
  integer Number of magnitude \<open>2 ^ 53\<close> or more (the shortest digits that identify the
  Number, then zeros or an exponent).
\<close>

record runtime =
  toUpperCase :: "cadena \<Rightarrow> cadena"
  toLowerCase :: "cadena \<Rightarrow> cadena"
  toString_grande :: "int \<Rightarrow> cadena"

text \<open>
  \<open>n.toString()\<close> of an integer Number. Under \<open>2 ^ 53\<close> in magnitude, where every
  integer is a Number of its own, it is the decimal digits, after a minus sign when the
  Number is negative; from there on it is what the runtime prints.
\<close>

fun digitos :: "nat \<Rightarrow> cadena" where
  "digitos n = (if n < 10 then [0x30 + n] else digitos (n div 10) @ [0x30 + n mod 10])"

declare digitos.simps [simp del]

definition numero_a_cadena :: "runtime \<Rightarrow> int \<Rightarrow> cadena" where
  "numero_a_cadena rt n =
     (if \<bar>n\<bar> < 2 ^ 53 then
        (if n < 0 then 0x2D # digitos (nat (- n)) else digitos (nat n))
      else toString_grande rt n)"

text \<open>
  ToString of a value, as a template literal applies it; an array is its elements joined
  by commas, \<open>undefined\<close> and \<open>null\<close> elements giving nothing.
\<close>

fun unir :: "cadena list \<Rightarrow> cadena" where
  "unir [] = []"
| "unir [s] = s"
| "unir (s # t # ss) = s @ 0x2C # unir (t # ss)"

fun a_cadena :: "runtime \<Rightarrow> json \<Rightarrow> cadena" where
  "a_cadena rt JUndefined = lit ''undefined''"
| "a_cadena rt JNull = lit ''null''"
| "a_cadena rt (JBool b) = (if b then lit ''true'' else lit ''false'')"
| "a_cadena rt (JNum n) = numero_a_cadena rt n"
| "a_cadena rt JNaN = lit ''NaN''"
| "a_cadena rt (JInf negativo) = (if negativo then lit ''-Infinity'' else lit ''Infinity'')"
| "a_cadena rt (JStr s) = s"
| "a_cadena rt (JArr xs) =
     unir (map (\<lambda>x. if x = JUndefined \<or> x = JNull then [] else a_cadena rt x) xs)"
| "a_cadena rt (JObj kvs) = lit ''[object Object]''"

text \<open>
  What a failed step throws: a rejected query, or the TypeError of a method call on
  \<open>undefined\<close> or \<open>null\<close>.
\<close>

datatype excepcion = ErrorConsulta | TypeError

text \<open>\<open>v.toString()\<close>.\<close>

definition toString :: "runtime \<Rightarrow> json \<Rightarrow> excepcion + cadena" where
  "toString rt v =
     (if v = JUndefined \<or> v = JNull then Inl TypeError else Inr (a_cadena rt v))"

text \<open>\<open>S.padStart(maxLength, fillString)\<close>.\<close>

definition padStart :: "cadena \<Rightarrow> nat \<Rightarrow> cadena \<Rightarrow> cadena" where
  "padStart S maxLength fillString =
     (let stringLength = length S
      in if maxLength \<le> stringLength then S
         else if fillString = [] then S
         else let fillLen = maxLength - stringLength;
                  truncatedStringFiller = take fillLen (concat (replicate fillLen fillString))
              in truncatedStringFiller @ S)"

section \<open>The request, the data store and the handlers' effects\<close>

text \<open>
  The Express request: the route parameters and the parsed query string, each an object
  whose absent properties read as \<open>undefined\<close>.
\<close>

record peticion =
  params :: objeto
  query :: objeto

text \<open>\<open>!v\<close>: the values that count as false.\<close>

definition es_falso :: "json \<Rightarrow> bool" where
  "es_falso v = (v \<in> {JUndefined, JNull, JBool False, JNum 0, JNaN, JStr []})"

text \<open>
  The Prisma client is the controller's only access to the data store. A call names a
  model, an operation of the client's model API and an argument object; \<open>muta\<close> tells the
  operations that write to the store from those that only read it.
\<close>

datatype tabla = Materiales | Proveedores | Ubicacion | Temporadas_app | Tipo_movimientos_app

datatype operacion =
    FindMany | FindFirst | Count
  | Create | CreateMany | Update | UpdateMany | Upsert | Delete | DeleteMany

fun muta :: "operacion \<Rightarrow> bool" where
  "muta FindMany = False"
| "muta FindFirst = False"
| "muta Count = False"
| "muta op = True"

record consulta =
  modelo :: tabla
  operacion :: operacion
  argumentos :: objeto

text \<open>
  What the store answers is a parameter of the model: for each model and argument object
  a rejection, or the rows (\<open>findMany\<close>), the first row or \<open>null\<close> (\<open>findFirst\<close>), the
  number of rows (\<open>count\<close>). Quantifying over it covers every state of the store.
\<close>

record prisma =
  findMany :: "tabla \<Rightarrow> objeto \<Rightarrow> excepcion + objeto list"
  findFirst :: "tabla \<Rightarrow> objeto \<Rightarrow> excepcion + objeto option"
  count :: "tabla \<Rightarrow> objeto \<Rightarrow> excepcion + int"

text \<open>
  \<open>CONSTANTES.PLANTAS\<close> and \<open>CONSTANTES.UNIDADES_MEDIDA\<close> (the module
  \<open>configuracion/constantes\<close>), each given by its \<open>Object.entries\<close>.
\<close>

record constantes =
  PLANTAS :: "(cadena \<times> json) list"
  UNIDADES_MEDIDA :: "(cadena \<times> json) list"

text \<open>
  What a handler call leaves behind: the queries it sent, in order; the response object
  after it; the messages it gave to \<open>console.error\<close> (the first argument of each call).
\<close>

record efectos =
  consultas :: "consulta list"
  escrito :: res
  registro :: "cadena list"

text \<open>
  The \<open>try\<close>/\<open>catch\<close> every handler is wrapped in. The body sends its queries and
  either returns the response it wrote or throws; on a throw the handler logs and writes
  the error envelope with its own message and code, at the default status.
\<close>

definition atrapar ::
  "res \<Rightarrow> consulta list \<times> (excepcion + res) \<Rightarrow> cadena \<Rightarrow> cadena \<Rightarrow> cadena \<Rightarrow> efectos" where
  "atrapar res cuerpo_try aviso mensaje codigo =
     (case cuerpo_try of
        (qs, Inr res') \<Rightarrow> \<lparr>consultas = qs, escrito = res', registro = []\<rparr>
      | (qs, Inl e) \<Rightarrow>
          \<lparr>consultas = qs,
           escrito = error res (JStr mensaje) (JStr codigo) JUndefined,
           registro = [aviso]\<rparr>)"

text \<open>
  A call of the client (\<open>prisma.materiales.findMany(args)\<close> and the like, the model
  capitalised here) sends its query and yields what the store answers; \<open>await\<close>
  hands the answer to the rest of the body, or throws the rejection.
\<close>

definition prisma_findMany ::
  "prisma \<Rightarrow> tabla \<Rightarrow> objeto \<Rightarrow> consulta list \<times> (excepcion + objeto list)" where
  "prisma_findMany db t args =
     ([\<lparr>modelo = t, operacion = FindMany, argumentos = args\<rparr>], findMany db t args)"

definition prisma_findFirst ::
  "prisma \<Rightarrow> tabla \<Rightarrow> objeto \<Rightarrow> consulta list \<times> (excepcion + objeto option)" where
  "prisma_findFirst db t args =
     ([\<lparr>modelo = t, operacion = FindFirst, argumentos = args\<rparr>], findFirst db t args)"

definition prisma_count ::
  "prisma \<Rightarrow> tabla \<Rightarrow> objeto \<Rightarrow> consulta list \<times> (excepcion + int)" where
  "prisma_count db t args =
     ([\<lparr>modelo = t, operacion = Count, argumentos = args\<rparr>], count db t args)"

definition await ::
  "consulta list \<times> (excepcion + 'a) \<Rightarrow> ('a \<Rightarrow> excepcion + 'b) \<Rightarrow>
     consulta list \<times> (excepcion + 'b)" where
  "await promesa resto =
     (case promesa of
        (qs, Inl e) \<Rightarrow> (qs, Inl e)
      | (qs, Inr x) \<Rightarrow> (qs, resto x))"

text \<open>
  \<open>Promise.all\<close> of the summary's five calls: every query is sent; the result is the five
  answers, or a rejection as soon as one of them is rejected. (Which rejection comes
  first in time is not modelled: the handler does not look at it.)
\<close>

definition Promise_all ::
  "consulta list \<times> (excepcion + 'a) \<Rightarrow> consulta list \<times> (excepcion + 'b) \<Rightarrow>
   consulta list \<times> (excepcion + 'c) \<Rightarrow> consulta list \<times> (excepcion + 'd) \<Rightarrow>
   consulta list \<times> (excepcion + 'e) \<Rightarrow>
     consulta list \<times> (excepcion + 'a \<times> 'b \<times> 'c \<times> 'd \<times> 'e)" where
  "Promise_all p1 p2 p3 p4 p5 =
     (fst p1 @ fst p2 @ fst p3 @ fst p4 @ fst p5,
      case (snd p1, snd p2, snd p3, snd p4, snd p5) of
        (Inr a, Inr b, Inr c, Inr d, Inr e) \<Rightarrow> Inr (a, b, c, d, e)
      | (Inl x, _) \<Rightarrow> Inl x
      | (_, Inl x, _) \<Rightarrow> Inl x
      | (_, _, Inl x, _) \<Rightarrow> Inl x
      | (_, _, _, Inl x, _) \<Rightarrow> Inl x
      | (_, _, _, _, Inl x) \<Rightarrow> Inl x)"

text \<open>\<open>xs.map(f)\<close> with a callback that may throw: the first throw ends the map.\<close>

fun mapear :: "('a \<Rightarrow> excepcion + 'b) \<Rightarrow> 'a list \<Rightarrow> excepcion + 'b list" where
  "mapear f [] = Inr []"
| "mapear f (x # xs) =
     (case f x of
        Inl e \<Rightarrow> Inl e
      | Inr y \<Rightarrow> (case mapear f xs of Inl e \<Rightarrow> Inl e | Inr ys \<Rightarrow> Inr (y # ys)))"

text \<open>
  \<open>activo === 'true' || activo === true\<close> after \<open>const { activo = true } = req.query\<close>.
\<close>

definition filtro_activo :: "peticion \<Rightarrow> json" where
  "filtro_activo req =
     (let activo = por_defecto (campo (query req) ''activo'') (JBool True)
      in JBool (activo = JStr (lit ''true'') \<or> activo = JBool True))"

text \<open>
  The synthetic code of a row: the prefix (\<open>PROV\<close> or \<open>UB\<close>) followed by
  \<open>row.id.toString().padStart(3, '0')\<close>.
\<close>

definition codigo_sintetico :: "runtime \<Rightarrow> string \<Rightarrow> json \<Rightarrow> excepcion + cadena" where
  "codigo_sintetico rt prefijo ident =
     (case toString rt ident of
        Inl e \<Rightarrow> Inl e
      | Inr s \<Rightarrow> Inr (lit prefijo @ padStart s 3 (lit ''0'')))"

section \<open>ControladorMantenedores\<close>

definition obtenerPlantas :: "runtime \<Rightarrow> constantes \<Rightarrow> peticion \<Rightarrow> res \<Rightarrow> efectos" where
  "obtenerPlantas rt K req res =
     atrapar res
       (let plantas =
              map (\<lambda>(clave, valor).
                     JObj [(''codigo'', valor),
                           (''nombre'', valor),
                           (''descripcion'', JStr (lit ''Planta '' @ a_cadena rt valor))])
                (PLANTAS K)
        in ([], Inr (exito res (JArr plantas) (JStr (lit ''Plantas obtenidas exitosamente''))
                       JUndefined)))
       (lit ''Error al obtener plantas:'')
       (lit ''Error al obtener plantas'')
       (lit ''ERROR_OBTENER_PLANTAS'')"

definition formatear_material :: "objeto \<Rightarrow> json" where
  "formatear_material material =
     JObj [(''id'', campo material ''id''),
           (''codigo'', campo material ''codigo_ranco''),
           (''nombre'', campo material ''nombre_material''),
           (''unidad_medida'', campo material ''unidad_medida''),
           (''requiere_frio'',
              JBool (campo material ''frio'' = JStr (lit ''Si'')
                     \<or> campo material ''frio'' = JStr [0x53, 0xED])),
           (''activo'', campo material ''activo'')]"

definition seleccion_material :: json where
  "seleccion_material =
     JObj [(''id'', JBool True), (''codigo_ranco'', JBool True),
           (''nombre_material'', JBool True), (''unidad_medida'', JBool True),
           (''frio'', JBool True), (''activo'', JBool True)]"

definition obtenerMateriales :: "prisma \<Rightarrow> peticion \<Rightarrow> res \<Rightarrow> efectos" where
  "obtenerMateriales db req res =
     atrapar res
       (await (prisma_findMany db Materiales
                 [(''where'', JObj [(''activo'', filtro_activo req)]),
                  (''select'', seleccion_material),
                  (''orderBy'', JObj [(''nombre_material'', JStr (lit ''asc''))])])
          (\<lambda>filas.
             Inr (exito res (JArr (map formatear_material filas))
                    (JStr (lit ''Materiales obtenidos exitosamente'')) JUndefined)))
       (lit ''Error al obtener materiales:'')
       (lit ''Error al obtener materiales'')
       (lit ''ERROR_OBTENER_MATERIALES'')"

definition obtenerMaterialPorCodigo :: "runtime \<Rightarrow> prisma \<Rightarrow> peticion \<Rightarrow> res \<Rightarrow> efectos" where
  "obtenerMaterialPorCodigo rt db req res =
     atrapar res
       (let codigo = campo (params req) ''codigo''
        in await (prisma_findFirst db Materiales
                    [(''where'', JObj [(''codigo_ranco'', codigo), (''activo'', JBool True)]),
                     (''select'', seleccion_material)])
             (\<lambda>material.
                case material of
                  None \<Rightarrow>
                    Inr (noEncontrado res
                           (JStr (lit ''Material con c'' @ [0xF3] @ lit ''digo ''
                                  @ a_cadena rt codigo @ lit '' no encontrado'')))
                | Some m \<Rightarrow>
                    Inr (exito res (formatear_material m)
                           (JStr (lit ''Material obtenido exitosamente'')) JUndefined)))
       (lit ''Error al obtener material por c'' @ [0xF3] @ lit ''digo:'')
       (lit ''Error al obtener material'')
       (lit ''ERROR_OBTENER_MATERIAL'')"

definition formatear_proveedor :: "runtime \<Rightarrow> objeto \<Rightarrow> excepcion + json" where
  "formatear_proveedor rt proveedor =
     (case codigo_sintetico rt ''PROV'' (campo proveedor ''id'') of
        Inl e \<Rightarrow> Inl e
      | Inr codigo \<Rightarrow>
          Inr (JObj [(''id'', campo proveedor ''id''),
                     (''codigo'', JStr codigo),
                     (''nombre'', campo proveedor ''title''),
                     (''rut'', JNull),
                     (''contacto'', JNull),
                     (''telefono'', JNull),
                     (''email'', JNull),
                     (''activo'', campo proveedor ''activo'')]))"

definition seleccion_proveedor :: json where
  "seleccion_proveedor =
     JObj [(''id'', JBool True), (''title'', JBool True), (''activo'', JBool True)]"

definition obtenerProveedores :: "runtime \<Rightarrow> prisma \<Rightarrow> peticion \<Rightarrow> res \<Rightarrow> efectos" where
  "obtenerProveedores rt db req res =
     atrapar res
       (await (prisma_findMany db Proveedores
                 [(''where'', JObj [(''activo'', filtro_activo req)]),
                  (''select'', seleccion_proveedor),
                  (''orderBy'', JObj [(''title'', JStr (lit ''asc''))])])
          (\<lambda>filas.
             case mapear (formatear_proveedor rt) filas of
               Inl e \<Rightarrow> Inl e
             | Inr proveedoresFormateados \<Rightarrow>
                 Inr (exito res (JArr proveedoresFormateados)
                        (JStr (lit ''Proveedores obtenidos exitosamente'')) JUndefined)))
       (lit ''Error al obtener proveedores:'')
       (lit ''Error al obtener proveedores'')
       (lit ''ERROR_OBTENER_PROVEEDORES'')"

text \<open>The \<open>whereClause\<close> of the supplier-by-code handler, for a string \<open>codigo\<close>.\<close>

definition whereClause :: "cadena \<Rightarrow> objeto" where
  "whereClause codigo =
     (if startsWith codigo (lit ''PROV'') then
        (let ident = parseInt (replace codigo (lit ''PROV'') [])
         in if \<not> isNaN ident then [(''id'', ident), (''activo'', JBool True)]
            else [(''title'', JObj [(''contains'', JStr codigo),
                                    (''mode'', JStr (lit ''insensitive''))]),
                  (''activo'', JBool True)])
      else [(''title'', JObj [(''contains'', JStr codigo),
                              (''mode'', JStr (lit ''insensitive''))]),
            (''activo'', JBool True)])"

definition obtenerProveedorPorCodigo :: "runtime \<Rightarrow> prisma \<Rightarrow> peticion \<Rightarrow> res \<Rightarrow> efectos" where
  "obtenerProveedorPorCodigo rt db req res =
     atrapar res
       (let codigo = campo (params req) ''codigo''
        in if es_falso codigo then
             ([], Inr (validacionFallida res
                         (JArr [JStr (lit ''C'' @ [0xF3] @ lit ''digo de proveedor requerido'')])
                         (JStr mensaje_validacion)))
           else
             (case codigo of
                JStr c \<Rightarrow>
                  await (prisma_findFirst db Proveedores
                           [(''where'', JObj (whereClause c)),
                            (''select'', seleccion_proveedor)])
                    (\<lambda>proveedor.
                       case proveedor of
                         None \<Rightarrow>
                           Inr (noEncontrado res
                                  (JStr (lit ''Proveedor con c'' @ [0xF3] @ lit ''digo ''
                                         @ a_cadena rt codigo @ lit '' no encontrado'')))
                       | Some p \<Rightarrow>
                           (case formatear_proveedor rt p of
                              Inl e \<Rightarrow> Inl e
                            | Inr proveedorFormateado \<Rightarrow>
                                Inr (exito res proveedorFormateado
                                       (JStr (lit ''Proveedor obtenido exitosamente''))
                                       JUndefined)))
              | _ \<Rightarrow> ([], Inl TypeError)))
       (lit ''Error al obtener proveedor por c'' @ [0xF3] @ lit ''digo:'')
       (lit ''Error al obtener proveedor'')
       (lit ''ERROR_OBTENER_PROVEEDOR'')"

definition formatear_ubicacion :: "runtime \<Rightarrow> objeto \<Rightarrow> excepcion + json" where
  "formatear_ubicacion rt ubicacion =
     (case codigo_sintetico rt ''UB'' (campo ubicacion ''id'') of
        Inl e \<Rightarrow> Inl e
      | Inr codigo \<Rightarrow>
          Inr (JObj [(''id'', campo ubicacion ''id''),
                     (''codigo'', JStr codigo),
                     (''nombre'', campo ubicacion ''title''),
                     (''bodega'', campo ubicacion ''bodega_deposito''),
                     (''planta'', campo ubicacion ''planta''),
                     (''tipo'', JStr (lit ''bodega'')),
                     (''activo'', campo ubicacion ''activo'')]))"

definition seleccion_ubicacion :: json where
  "seleccion_ubicacion =
     JObj [(''id'', JBool True), (''title'', JBool True), (''bodega_deposito'', JBool True),
           (''planta'', JBool True), (''activo'', JBool True)]"

definition obtenerUbicaciones :: "runtime \<Rightarrow> prisma \<Rightarrow> peticion \<Rightarrow> res \<Rightarrow> efectos" where
  "obtenerUbicaciones rt db req res =
     atrapar res
       (await (prisma_findMany db Ubicacion
                 [(''where'', JObj [(''activo'', filtro_activo req)]),
                  (''select'', seleccion_ubicacion),
                  (''orderBy'', JArr [JObj [(''planta'', JStr (lit ''asc''))],
                                      JObj [(''bodega_deposito'', JStr (lit ''asc''))],
                                      JObj [(''title'', JStr (lit ''asc''))]])])
          (\<lambda>filas.
             case mapear (formatear_ubicacion rt) filas of
               Inl e \<Rightarrow> Inl e
             | Inr ubicacionesFormateadas \<Rightarrow>
                 Inr (exito res (JArr ubicacionesFormateadas)
                        (JStr (lit ''Ubicaciones obtenidas exitosamente'')) JUndefined)))
       (lit ''Error al obtener ubicaciones:'')
       (lit ''Error al obtener ubicaciones'')
       (lit ''ERROR_OBTENER_UBICACIONES'')"

definition obtenerUbicacionesPorPlanta ::
  "runtime \<Rightarrow> prisma \<Rightarrow> peticion \<Rightarrow> res \<Rightarrow> efectos" where
  "obtenerUbicacionesPorPlanta rt db req res =
     atrapar res
       (let planta = campo (params req) ''planta''
        in if es_falso planta then
             ([], Inr (validacionFallida res (JArr [JStr (lit ''Planta requerida'')])
                         (JStr mensaje_validacion)))
           else
             (case planta of
                JStr p \<Rightarrow>
                  await (prisma_findMany db Ubicacion
                           [(''where'', JObj [(''planta'', JStr (toUpperCase rt p)),
                                              (''activo'', filtro_activo req)]),
                            (''select'', seleccion_ubicacion),
                            (''orderBy'', JArr [JObj [(''bodega_deposito'', JStr (lit ''asc''))],
                                                JObj [(''title'', JStr (lit ''asc''))]])])
                    (\<lambda>filas.
                       case mapear (formatear_ubicacion rt) filas of
                         Inl e \<Rightarrow> Inl e
                       | Inr ubicacionesFormateadas \<Rightarrow>
                           Inr (exito res (JArr ubicacionesFormateadas)
                                  (JStr (lit ''Ubicaciones de planta '' @ toUpperCase rt p
                                         @ lit '' obtenidas exitosamente''))
                                  JUndefined))
              | _ \<Rightarrow> ([], Inl TypeError)))
       (lit ''Error al obtener ubicaciones por planta:'')
       (lit ''Error al obtener ubicaciones por planta'')
       (lit ''ERROR_OBTENER_UBICACIONES_PLANTA'')"

definition seleccion_temporada :: json where
  "seleccion_temporada =
     JObj [(''id'', JBool True), (''title'', JBool True), (''fecha_inicio'', JBool True),
           (''fecha_fin'', JBool True), (''activo'', JBool True)]"

definition obtenerTemporadas :: "prisma \<Rightarrow> peticion \<Rightarrow> res \<Rightarrow> efectos" where
  "obtenerTemporadas db req res =
     atrapar res
       (await (prisma_findMany db Temporadas_app
                 [(''where'', JObj [(''activo'', filtro_activo req)]),
                  (''select'', seleccion_temporada),
                  (''orderBy'', JObj [(''fecha_inicio'', JStr (lit ''desc''))])])
          (\<lambda>temporadas.
             Inr (exito res (JArr (map JObj temporadas))
                    (JStr (lit ''Temporadas obtenidas exitosamente'')) JUndefined)))
       (lit ''Error al obtener temporadas:'')
       (lit ''Error al obtener temporadas'')
       (lit ''ERROR_OBTENER_TEMPORADAS'')"

definition obtenerTemporadaActiva :: "prisma \<Rightarrow> peticion \<Rightarrow> res \<Rightarrow> efectos" where
  "obtenerTemporadaActiva db req res =
     atrapar res
       (await (prisma_findFirst db Temporadas_app
                 [(''where'', JObj [(''activo'', JBool True)]),
                  (''select'', seleccion_temporada)])
          (\<lambda>temporadaActiva.
             case temporadaActiva of
               None \<Rightarrow>
                 Inr (noEncontrado res (JStr (lit ''No hay temporada activa configurada'')))
             | Some t \<Rightarrow>
                 Inr (exito res
                        (JObj [(''id'', campo t ''id''),
                               (''codigo'', campo t ''title''),
                               (''nombre'', campo t ''title''),
                               (''fecha_inicio'', campo t ''fecha_inicio''),
                               (''fecha_termino'', campo t ''fecha_fin''),
                               (''activa'', campo t ''activo'')])
                        (JStr (lit ''Temporada activa obtenida exitosamente'')) JUndefined)))
       (lit ''Error al obtener temporada activa:'')
       (lit ''Error al obtener temporada activa'')
       (lit ''ERROR_OBTENER_TEMPORADA_ACTIVA'')"

definition formatear_tipo :: "objeto \<Rightarrow> json" where
  "formatear_tipo tipo =
     JObj [(''id'', campo tipo ''id''),
           (''codigo'', campo tipo ''title''),
           (''nombre'', campo tipo ''title''),
           (''descripcion'', campo tipo ''descripcion''),
           (''activo'', campo tipo ''activo'')]"

definition obtenerTiposMovimiento :: "prisma \<Rightarrow> peticion \<Rightarrow> res \<Rightarrow> efectos" where
  "obtenerTiposMovimiento db req res =
     atrapar res
       (await (prisma_findMany db Tipo_movimientos_app
                 [(''where'', JObj [(''activo'', filtro_activo req)]),
                  (''select'', JObj [(''id'', JBool True), (''title'', JBool True),
                                     (''descripcion'', JBool True), (''activo'', JBool True)]),
                  (''orderBy'', JObj [(''title'', JStr (lit ''asc''))])])
          (\<lambda>tiposMovimiento.
             Inr (exito res (JArr (map formatear_tipo tiposMovimiento))
                    (JStr (lit ''Tipos de movimiento obtenidos exitosamente'')) JUndefined)))
       (lit ''Error al obtener tipos de movimiento:'')
       (lit ''Error al obtener tipos de movimiento'')
       (lit ''ERROR_OBTENER_TIPOS_MOVIMIENTO'')"

definition obtenerUnidadesMedida ::
  "runtime \<Rightarrow> constantes \<Rightarrow> peticion \<Rightarrow> res \<Rightarrow> efectos" where
  "obtenerUnidadesMedida rt K req res =
     atrapar res
       (let unidadesMedida =
              map (\<lambda>(clave, valor).
                     JObj [(''codigo'', valor),
                           (''nombre'', JStr (replace_guiones (toLowerCase rt clave))),
                           (''descripcion'', valor)])
                (UNIDADES_MEDIDA K)
        in ([], Inr (exito res (JArr unidadesMedida)
                       (JStr (lit ''Unidades de medida obtenidas exitosamente'')) JUndefined)))
       (lit ''Error al obtener unidades de medida:'')
       (lit ''Error al obtener unidades de medida'')
       (lit ''ERROR_OBTENER_UNIDADES_MEDIDA'')"

text \<open>The summary object built from the five answers.\<close>

definition resumen ::
  "constantes \<Rightarrow> int \<times> int \<times> int \<times> objeto option \<times> int \<Rightarrow> objeto" where
  "resumen K respuestas =
     (case respuestas of
        (totalMateriales, totalProveedores, totalUbicaciones, temporadaActiva,
         totalTiposMovimiento) \<Rightarrow>
          [(''materiales'', JNum totalMateriales),
           (''proveedores'', JNum totalProveedores),
           (''ubicaciones'', JNum totalUbicaciones),
           (''tiposMovimiento'', JNum totalTiposMovimiento),
           (''plantas'', JNum (int (length (PLANTAS K)))),
           (''unidadesMedida'', JNum (int (length (UNIDADES_MEDIDA K)))),
           (''temporadaActiva'',
              case temporadaActiva of None \<Rightarrow> JNull | Some t \<Rightarrow> campo t ''nombre'')])"

definition obtenerResumenMantenedores ::
  "constantes \<Rightarrow> prisma \<Rightarrow> peticion \<Rightarrow> res \<Rightarrow> efectos" where
  "obtenerResumenMantenedores K db req res =
     atrapar res
       (await (Promise_all
                 (prisma_count db Materiales [(''where'', JObj [(''activo'', JBool True)])])
                 (prisma_count db Proveedores [(''where'', JObj [(''activo'', JBool True)])])
                 (prisma_count db Ubicacion [(''where'', JObj [(''activo'', JBool True)])])
                 (prisma_findFirst db Temporadas_app
                    [(''where'', JObj [(''activa'', JBool True)])])
                 (prisma_count db Tipo_movimientos_app
                    [(''where'', JObj [(''activo'', JBool True)])]))
          (\<lambda>respuestas.
             Inr (exito res (JObj (resumen K respuestas))
                    (JStr (lit ''Resumen de mantenedores obtenido exitosamente'')) JUndefined)))
       (lit ''Error al obtener resumen de mantenedores:'')
       (lit ''Error al obtener resumen de mantenedores'')
       (lit ''ERROR_OBTENER_RESUMEN_MANTENEDORES'')"

text \<open>The controller's twelve static methods, in the order of the class.\<close>

definition ControladorMantenedores ::
  "runtime \<Rightarrow> constantes \<Rightarrow> prisma \<Rightarrow> (peticion \<Rightarrow> res \<Rightarrow> efectos) list" where
  "ControladorMantenedores rt K db =
     [obtenerPlantas rt K,
      obtenerMateriales db,
      obtenerMaterialPorCodigo rt db,
      obtenerProveedores rt db,
      obtenerProveedorPorCodigo rt db,
      obtenerUbicaciones rt db,
      obtenerUbicacionesPorPlanta rt db,
      obtenerTemporadas db,
      obtenerTemporadaActiva db,
      obtenerTiposMovimiento db,
      obtenerUnidadesMedida rt K,
      obtenerResumenMantenedores K db]"

section \<open>Reading a handler's effects\<close>

text \<open>A property of a value that is an object; \<open>undefined\<close> for any other value here.\<close>

fun propiedad :: "json \<Rightarrow> string \<Rightarrow> json" where
  "propiedad (JObj kvs) k = campo kvs k"
| "propiedad v k = JUndefined"

text \<open>Whether the store rejects a query of the read operations.\<close>

definition rechazada :: "prisma \<Rightarrow> consulta \<Rightarrow> bool" where
  "rechazada db q =
     (case operacion q of
        FindMany \<Rightarrow> isl (findMany db (modelo q) (argumentos q))
      | FindFirst \<Rightarrow> isl (findFirst db (modelo q) (argumentos q))
      | Count \<Rightarrow> isl (count db (modelo q) (argumentos q))
      | _ \<Rightarrow> False)"

text \<open>
  The store after a sequence of queries, for any store \<open>s\<close> and any way \<open>escribir\<close> the
  writing operations change it: an operation that only reads leaves it as it is.
\<close>

definition efecto_almacen :: "(consulta \<Rightarrow> 's \<Rightarrow> 's) \<Rightarrow> consulta list \<Rightarrow> 's \<Rightarrow> 's" where
  "efecto_almacen escribir qs s =
     foldl (\<lambda>s' q. if muta (operacion q) then escribir q s' else s') s qs"

text \<open>
  Stores for the instances below: one that answers every query from the same rows,
  whatever the arguments, and one that rejects every query.
\<close>

definition almacen_fijo :: "objeto list \<Rightarrow> prisma" where
  "almacen_fijo filas =
     \<lparr>findMany = (\<lambda>t args. Inr filas),
      findFirst = (\<lambda>t args. Inr (case filas of [] \<Rightarrow> None | f # fs \<Rightarrow> Some f)),
      count = (\<lambda>t args. Inr (int (length filas)))\<rparr>"

definition almacen_caido :: prisma where
  "almacen_caido =
     \<lparr>findMany = (\<lambda>t args. Inl ErrorConsulta),
      findFirst = (\<lambda>t args. Inl ErrorConsulta),
      count = (\<lambda>t args. Inl ErrorConsulta)\<rparr>"

definition sin_parametros :: peticion where
  "sin_parametros = \<lparr>params = [], query = []\<rparr>"

text \<open>
  The pattern of the supplier-by-code claim, from its words: the letters \<open>PROV\<close> followed
  by one or more decimal digits and nothing else.
\<close>

definition es_decimal :: "nat \<Rightarrow> bool" where
  "es_decimal c = (0x30 \<le> c \<and> c \<le> 0x39)"

definition patron_PROV_digitos :: "cadena \<Rightarrow> bool" where
  "patron_PROV_digitos codigo =
     (startsWith codigo (lit ''PROV'') \<and> drop 4 codigo \<noteq> [] \<and> list_all es_decimal (drop 4 codigo))"

text \<open>
  The strings \<open>parseInt\<close> reads a number from. \<open>tras_signo\<close> is the string after its
  leading white space and one sign, if it has one; a numeral starts there when what
  follows is \<open>0x\<close> or \<open>0X\<close> and then a hexadecimal digit, or is not such a prefix and is
  a decimal digit.
\<close>

definition tras_signo :: "cadena \<Rightarrow> cadena" where
  "tras_signo s =
     (let S = dropWhile es_espacio s
      in if S \<noteq> [] \<and> (hd S = 0x2B \<or> hd S = 0x2D) then tl S else S)"

definition empieza_numeral :: "cadena \<Rightarrow> bool" where
  "empieza_numeral s =
     (let r = tras_signo s
      in if take 2 r = lit ''0x'' \<or> take 2 r = lit ''0X''
         then (case drop 2 r of [] \<Rightarrow> False | c # cs \<Rightarrow> es_digito 16 c)
         else (case r of [] \<Rightarrow> False | c # cs \<Rightarrow> es_decimal c))"




text \<open>
  A runtime for the instances below, which apply it to no letter and to no Number of
  \<open>2 ^ 53\<close> or more.
\<close>

definition runtime_ejemplo :: runtime where
  "runtime_ejemplo =
     \<lparr>toUpperCase = (\<lambda>s. s), toLowerCase = (\<lambda>s. s), toString_grande = (\<lambda>n. [])\<rparr>"

section \<open>The response envelopes\<close>

lemma total_de_no_lista: "(\<forall>xs. datos \<noteq> JArr xs) \<Longrightarrow> total_de datos = JUndefined"
  by (cases datos) simp_all

text \<open>
  C1. \<open>exito\<close> writes one response. Its body has \<open>total\<close> equal to the length of the
  payload when the payload is an array; otherwise \<open>total\<close> is \<open>undefined\<close> and does
  not reach the client. The body has \<open>exito: true\<close>, the payload under \<open>datos\<close> and the
  message given (the default one when none is given); the status is the one given, and 200
  when none is given.
\<close>

theorem exito_total:
  "\<exists>r. exito res datos mensaje codigoEstado = res @ [r]
     \<and> (\<forall>xs. datos = JArr xs \<longrightarrow> campo (cuerpo r) ''total'' = JNum (int (length xs)))
     \<and> ((\<forall>xs. datos \<noteq> JArr xs) \<longrightarrow>
          campo (cuerpo r) ''total'' = JUndefined \<and> ''total'' \<notin> set (claves_emitidas (cuerpo r)))
     \<and> campo (cuerpo r) ''exito'' = JBool True
     \<and> campo (cuerpo r) ''datos'' = datos
     \<and> (mensaje \<noteq> JUndefined \<longrightarrow> campo (cuerpo r) ''mensaje'' = mensaje)
     \<and> (mensaje = JUndefined \<longrightarrow> campo (cuerpo r) ''mensaje'' = JStr mensaje_exito)
     \<and> (codigoEstado = JUndefined \<longrightarrow> estado r = JNum 200)
     \<and> (codigoEstado \<noteq> JUndefined \<longrightarrow> estado r = codigoEstado)"
proof -
  let ?b = "[(''exito'', JBool True), (''mensaje'', por_defecto mensaje (JStr mensaje_exito)),
             (''datos'', datos), (''total'', total_de datos)]"
  let ?r = "\<lparr>estado = por_defecto codigoEstado (JNum 200), cuerpo = ?b\<rparr>"
  have escrito: "exito res datos mensaje codigoEstado = res @ [?r]"
    by (simp add: exito_def status_json_def)
  have ausente: "''total'' \<notin> set (claves_emitidas ?b)" if "\<forall>xs. datos \<noteq> JArr xs"
    using total_de_no_lista [OF that] by (auto simp: claves_emitidas_def)
  have campos: "campo ?b ''total'' = total_de datos" "campo ?b ''exito'' = JBool True"
    "campo ?b ''datos'' = datos" "campo ?b ''mensaje'' = por_defecto mensaje (JStr mensaje_exito)"
    by (simp_all add: campo_def)
  show ?thesis
    apply (rule exI [of _ ?r])
    using escrito ausente campos
    by (auto simp: por_defecto_def total_de_no_lista)
qed

theorem exito_total_witness:
  "exito [] (JArr [JNull, JBool True]) (JStr (lit ''ok'')) JUndefined =
     [\<lparr>estado = JNum 200,
       cuerpo = [(''exito'', JBool True), (''mensaje'', JStr (lit ''ok'')),
                 (''datos'', JArr [JNull, JBool True]), (''total'', JNum 2)]\<rparr>]
   \<and> campo (cuerpo (last (exito [] (JObj []) (JStr (lit ''ok'')) JUndefined))) ''total''
       = JUndefined"
  using exito_total [of "[]" "JArr [JNull, JBool True]" "JStr (lit ''ok'')" JUndefined]
    exito_total [of "[]" "JObj []" "JStr (lit ''ok'')" JUndefined]
  by (simp add: exito_def status_json_def campo_def por_defecto_def)

text \<open>
  C6 (amended). The three error envelopes write one response each, all with
  \<open>exito: false\<close>: \<open>validacionFallida\<close> always has status 400, the code
  \<open>VALIDACION_FALLIDA\<close> and the \<open>errores\<close> given; \<open>noEncontrado\<close> always has status
  404 and the code \<open>RECURSO_NO_ENCONTRADO\<close>; \<open>error\<close> has the status and the code
  given, and by default status 500 and the code \<open>ERROR_GENERICO\<close>.
\<close>

theorem envolturas_de_error:
  "validacionFallida res errores mensaje =
     res @ [\<lparr>estado = JNum 400,
              cuerpo = [(''exito'', JBool False),
                        (''mensaje'', por_defecto mensaje (JStr mensaje_validacion)),
                        (''codigo'', JStr (lit ''VALIDACION_FALLIDA'')),
                        (''errores'', errores)]\<rparr>]
   \<and> noEncontrado res mensaje =
     res @ [\<lparr>estado = JNum 404,
              cuerpo = [(''exito'', JBool False),
                        (''mensaje'', por_defecto mensaje (JStr (lit ''Recurso no encontrado''))),
                        (''codigo'', JStr (lit ''RECURSO_NO_ENCONTRADO''))]\<rparr>]
   \<and> error res mensaje codigo codigoEstado =
     res @ [\<lparr>estado = por_defecto codigoEstado (JNum 500),
              cuerpo = [(''exito'', JBool False),
                        (''mensaje'', mensaje),
                        (''codigo'', por_defecto codigo (JStr (lit ''ERROR_GENERICO'')))]\<rparr>]
   \<and> error res mensaje JUndefined JUndefined =
     res @ [\<lparr>estado = JNum 500,
              cuerpo = [(''exito'', JBool False),
                        (''mensaje'', mensaje),
                        (''codigo'', JStr (lit ''ERROR_GENERICO''))]\<rparr>]"
  by (simp add: validacionFallida_def noEncontrado_def error_def status_json_def por_defecto_def)

theorem envolturas_de_error_witness:
  "estado (last (validacionFallida [] (JArr [JStr (lit ''x'')]) JUndefined)) = JNum 400
   \<and> estado (last (noEncontrado [] JUndefined)) = JNum 404
   \<and> estado (last (error [] JUndefined JUndefined JUndefined)) = JNum 500
   \<and> estado (last (error [] (JStr (lit ''m'')) (JStr (lit ''E'')) (JNum 503))) = JNum 503"
  using envolturas_de_error [where res = "[]" and errores = "JArr [JStr (lit ''x'')]"
      and mensaje = JUndefined and codigo = JUndefined and codigoEstado = JUndefined]
    envolturas_de_error [where res = "[]" and errores = JNull and mensaje = "JStr (lit ''m'')"
      and codigo = "JStr (lit ''E'')" and codigoEstado = "JNum 503"]
  by (simp add: por_defecto_def)

text \<open>
  C6 as stated names the codes \<open>VALIDATION_FAILED\<close>, \<open>RESOURCE_NOT_FOUND\<close> and
  \<open>GENERIC_ERROR\<close>: none of them is the code written.
\<close>

theorem codigos_en_ingles_counterexample:
  "campo (cuerpo (last (validacionFallida [] (JArr []) JUndefined))) ''codigo''
     \<noteq> JStr (lit ''VALIDATION_FAILED'')
   \<and> campo (cuerpo (last (noEncontrado [] JUndefined))) ''codigo''
     \<noteq> JStr (lit ''RESOURCE_NOT_FOUND'')
   \<and> campo (cuerpo (last (error [] (JStr (lit ''m'')) JUndefined JUndefined))) ''codigo''
     \<noteq> JStr (lit ''GENERIC_ERROR'')"
  by (simp add: validacionFallida_def noEncontrado_def error_def status_json_def por_defecto_def
      campo_def lit_def)

section \<open>The handlers\<close>

subsection \<open>Unfolding a handler\<close>

lemma consultas_atrapar: "consultas (atrapar res (qs, r) aviso mensaje codigo) = qs"
  by (cases r) (simp_all add: atrapar_def)

lemma atrapar_Inr:
  "atrapar res (qs, Inr res') aviso mensaje codigo =
     \<lparr>consultas = qs, escrito = res', registro = []\<rparr>"
  by (simp add: atrapar_def)

lemma atrapar_Inl:
  "atrapar res (qs, Inl e) aviso mensaje codigo =
     \<lparr>consultas = qs,
      escrito = res @ [\<lparr>estado = JNum 500,
                        cuerpo = [(''exito'', JBool False), (''mensaje'', JStr mensaje),
                                  (''codigo'', JStr codigo)]\<rparr>],
      registro = [aviso]\<rparr>"
  by (simp add: atrapar_def error_def status_json_def por_defecto_def)

lemma await_Inl: "await (qs, Inl e) resto = (qs, Inl e)"
  by (simp add: await_def)

lemma await_Inr: "await (qs, Inr x) resto = (qs, resto x)"
  by (simp add: await_def)

lemma fst_await: "fst (await promesa resto) = fst promesa"
  by (cases promesa; cases "snd promesa") (auto simp: await_def)

lemma consultas_atrapar_fst:
  "consultas (atrapar res cuerpo_try aviso mensaje codigo) = fst cuerpo_try"
  by (cases cuerpo_try) (simp add: consultas_atrapar)

lemma validacion_escrita:
  "validacionFallida res errores (JStr mensaje_validacion) =
     res @ [\<lparr>estado = JNum 400,
              cuerpo = [(''exito'', JBool False), (''mensaje'', JStr mensaje_validacion),
                        (''codigo'', JStr (lit ''VALIDACION_FALLIDA'')),
                        (''errores'', errores)]\<rparr>]"
  by (simp add: validacionFallida_def status_json_def por_defecto_def)

subsection \<open>The required route parameter\<close>

text \<open>
  C5 (amended). When the route parameter the handler requires reads as false
  (\<open>codigo\<close> for the supplier-by-code handler, \<open>planta\<close> for the locations-by-plant
  handler; an absent parameter reads as \<open>undefined\<close>), the handler sends no query and
  writes one response: status 400 with the code \<open>VALIDACION_FALLIDA\<close> and the message
  naming the parameter.
\<close>

theorem parametro_requerido:
  "(es_falso (campo (params req) ''codigo'') \<longrightarrow>
      obtenerProveedorPorCodigo rt db req res =
        \<lparr>consultas = [],
         escrito = res @ [\<lparr>estado = JNum 400,
           cuerpo = [(''exito'', JBool False), (''mensaje'', JStr mensaje_validacion),
                     (''codigo'', JStr (lit ''VALIDACION_FALLIDA'')),
                     (''errores'',
                        JArr [JStr (lit ''C'' @ [0xF3] @ lit ''digo de proveedor requerido'')])]\<rparr>],
         registro = []\<rparr>)
   \<and> (es_falso (campo (params req) ''planta'') \<longrightarrow>
      obtenerUbicacionesPorPlanta rt db req res =
        \<lparr>consultas = [],
         escrito = res @ [\<lparr>estado = JNum 400,
           cuerpo = [(''exito'', JBool False), (''mensaje'', JStr mensaje_validacion),
                     (''codigo'', JStr (lit ''VALIDACION_FALLIDA'')),
                     (''errores'', JArr [JStr (lit ''Planta requerida'')])]\<rparr>],
         registro = []\<rparr>)
   \<and> (map_of (params req) ''codigo'' = None \<longrightarrow> es_falso (campo (params req) ''codigo''))
   \<and> (map_of (params req) ''planta'' = None \<longrightarrow> es_falso (campo (params req) ''planta''))"
  by (simp add: obtenerProveedorPorCodigo_def obtenerUbicacionesPorPlanta_def atrapar_Inr
      validacion_escrita) (simp add: campo_def es_falso_def)

theorem parametro_requerido_witness:
  "obtenerProveedorPorCodigo runtime_ejemplo (almacen_fijo []) sin_parametros [] =
     \<lparr>consultas = [],
      escrito = [\<lparr>estado = JNum 400,
        cuerpo = [(''exito'', JBool False), (''mensaje'', JStr mensaje_validacion),
                  (''codigo'', JStr (lit ''VALIDACION_FALLIDA'')),
                  (''errores'',
                     JArr [JStr (lit ''C'' @ [0xF3] @ lit ''digo de proveedor requerido'')])]\<rparr>],
      registro = []\<rparr>
   \<and> consultas (obtenerUbicacionesPorPlanta runtime_ejemplo (almacen_fijo []) sin_parametros []) = []"
  using parametro_requerido [where req = sin_parametros and db = "almacen_fijo []"
      and res = "[]" and rt = runtime_ejemplo]
  by (simp add: sin_parametros_def campo_def es_falso_def)

text \<open>
  C5 as stated names the code \<open>VALIDATION_FAILED\<close>, which is not the code written
  when the parameter is absent.
\<close>

theorem codigo_validacion_counterexample:
  "campo (cuerpo (last (escrito (obtenerProveedorPorCodigo runtime_ejemplo (almacen_fijo []) sin_parametros []))))
      ''codigo'' \<noteq> JStr (lit ''VALIDATION_FAILED'')
   \<and> campo (cuerpo (last (escrito
        (obtenerUbicacionesPorPlanta runtime_ejemplo (almacen_fijo []) sin_parametros []))))
      ''codigo'' \<noteq> JStr (lit ''VALIDATION_FAILED'')"
  by (simp add: obtenerProveedorPorCodigo_def obtenerUbicacionesPorPlanta_def atrapar_Inr
      validacion_escrita sin_parametros_def campo_def es_falso_def lit_def)

subsection \<open>The activo filter\<close>

lemma filtro_activo_omitido:
  "campo (query req) ''activo'' = JUndefined \<Longrightarrow> filtro_activo req = JBool True"
  by (simp add: filtro_activo_def por_defecto_def)

lemma filtro_activo_false:
  "campo (query req) ''activo'' = JStr (lit ''false'') \<Longrightarrow> filtro_activo req = JBool False"
  by (simp add: filtro_activo_def por_defecto_def lit_def)

lemma consultas_findMany:
  "consultas (atrapar res (await (prisma_findMany db t args) resto) aviso mensaje codigo) =
     [\<lparr>modelo = t, operacion = FindMany, argumentos = args\<rparr>]"
  by (simp add: consultas_atrapar_fst fst_await prisma_findMany_def)

lemma consultas_findFirst:
  "consultas (atrapar res (await (prisma_findFirst db t args) resto) aviso mensaje codigo) =
     [\<lparr>modelo = t, operacion = FindFirst, argumentos = args\<rparr>]"
  by (simp add: consultas_atrapar_fst fst_await prisma_findFirst_def)

lemma consultas_por_planta:
  "campo (params req) ''planta'' = JStr planta \<Longrightarrow> planta \<noteq> [] \<Longrightarrow>
   consultas (obtenerUbicacionesPorPlanta rt db req res) =
      [\<lparr>modelo = Ubicacion, operacion = FindMany,
        argumentos = [(''where'', JObj [(''planta'', JStr (toUpperCase rt planta)),
                                        (''activo'', filtro_activo req)]),
                      (''select'', seleccion_ubicacion),
                      (''orderBy'', JArr [JObj [(''bodega_deposito'', JStr (lit ''asc''))],
                                          JObj [(''title'', JStr (lit ''asc''))]])]\<rparr>]"
  by (simp add: obtenerUbicacionesPorPlanta_def Let_def es_falso_def consultas_atrapar_fst
      fst_await prisma_findMany_def)

text \<open>
  C3. Each listing handler with the \<open>activo\<close> query parameter (materials, suppliers,
  locations, seasons, movement types, and locations by plant once its \<open>planta\<close> is a
  non-empty string) sends one \<open>findMany\<close> to its model whose \<open>where.activo\<close> is
  \<open>true\<close> when the parameter is omitted and \<open>false\<close> when the parameter is the string
  \<open>false\<close>.
\<close>

theorem activo_por_defecto:
  "(campo (query req) ''activo'' = JUndefined \<longrightarrow> filtro_activo req = JBool True)
   \<and> (campo (query req) ''activo'' = JStr (lit ''false'') \<longrightarrow> filtro_activo req = JBool False)
   \<and> map (\<lambda>q. (modelo q, operacion q, propiedad (campo (argumentos q) ''where'') ''activo''))
         (consultas (obtenerMateriales db req res)) = [(Materiales, FindMany, filtro_activo req)]
   \<and> map (\<lambda>q. (modelo q, operacion q, propiedad (campo (argumentos q) ''where'') ''activo''))
         (consultas (obtenerProveedores rt db req res)) = [(Proveedores, FindMany, filtro_activo req)]
   \<and> map (\<lambda>q. (modelo q, operacion q, propiedad (campo (argumentos q) ''where'') ''activo''))
         (consultas (obtenerUbicaciones rt db req res)) = [(Ubicacion, FindMany, filtro_activo req)]
   \<and> map (\<lambda>q. (modelo q, operacion q, propiedad (campo (argumentos q) ''where'') ''activo''))
         (consultas (obtenerTemporadas db req res)) = [(Temporadas_app, FindMany, filtro_activo req)]
   \<and> map (\<lambda>q. (modelo q, operacion q, propiedad (campo (argumentos q) ''where'') ''activo''))
         (consultas (obtenerTiposMovimiento db req res))
       = [(Tipo_movimientos_app, FindMany, filtro_activo req)]
   \<and> (campo (params req) ''planta'' = JStr planta \<and> planta \<noteq> [] \<longrightarrow>
        map (\<lambda>q. (modelo q, operacion q, propiedad (campo (argumentos q) ''where'') ''activo''))
          (consultas (obtenerUbicacionesPorPlanta rt db req res))
        = [(Ubicacion, FindMany, filtro_activo req)]
        \<and> map (\<lambda>q. propiedad (campo (argumentos q) ''where'') ''planta'')
          (consultas (obtenerUbicacionesPorPlanta rt db req res))
        = [JStr (toUpperCase rt planta)])"
proof -
  have "consultas (obtenerMateriales db req res) =
      [\<lparr>modelo = Materiales, operacion = FindMany,
        argumentos = [(''where'', JObj [(''activo'', filtro_activo req)]),
                      (''select'', seleccion_material),
                      (''orderBy'', JObj [(''nombre_material'', JStr (lit ''asc''))])]\<rparr>]"
    unfolding obtenerMateriales_def by (rule consultas_findMany)
  moreover have "consultas (obtenerProveedores rt db req res) =
      [\<lparr>modelo = Proveedores, operacion = FindMany,
        argumentos = [(''where'', JObj [(''activo'', filtro_activo req)]),
                      (''select'', seleccion_proveedor),
                      (''orderBy'', JObj [(''title'', JStr (lit ''asc''))])]\<rparr>]"
    unfolding obtenerProveedores_def by (rule consultas_findMany)
  moreover have "consultas (obtenerUbicaciones rt db req res) =
      [\<lparr>modelo = Ubicacion, operacion = FindMany,
        argumentos = [(''where'', JObj [(''activo'', filtro_activo req)]),
                      (''select'', seleccion_ubicacion),
                      (''orderBy'', JArr [JObj [(''planta'', JStr (lit ''asc''))],
                                          JObj [(''bodega_deposito'', JStr (lit ''asc''))],
                                          JObj [(''title'', JStr (lit ''asc''))]])]\<rparr>]"
    unfolding obtenerUbicaciones_def by (rule consultas_findMany)
  moreover have "consultas (obtenerTemporadas db req res) =
      [\<lparr>modelo = Temporadas_app, operacion = FindMany,
        argumentos = [(''where'', JObj [(''activo'', filtro_activo req)]),
                      (''select'', seleccion_temporada),
                      (''orderBy'', JObj [(''fecha_inicio'', JStr (lit ''desc''))])]\<rparr>]"
    unfolding obtenerTemporadas_def by (rule consultas_findMany)
  moreover have "consultas (obtenerTiposMovimiento db req res) =
      [\<lparr>modelo = Tipo_movimientos_app, operacion = FindMany,
        argumentos = [(''where'', JObj [(''activo'', filtro_activo req)]),
                      (''select'', JObj [(''id'', JBool True), (''title'', JBool True),
                                         (''descripcion'', JBool True), (''activo'', JBool True)]),
                      (''orderBy'', JObj [(''title'', JStr (lit ''asc''))])]\<rparr>]"
    unfolding obtenerTiposMovimiento_def by (rule consultas_findMany)
  moreover have "consultas (obtenerUbicacionesPorPlanta rt db req res) =
      [\<lparr>modelo = Ubicacion, operacion = FindMany,
        argumentos = [(''where'', JObj [(''planta'', JStr (toUpperCase rt planta)),
                                        (''activo'', filtro_activo req)]),
                      (''select'', seleccion_ubicacion),
                      (''orderBy'', JArr [JObj [(''bodega_deposito'', JStr (lit ''asc''))],
                                          JObj [(''title'', JStr (lit ''asc''))]])]\<rparr>]"
    if "campo (params req) ''planta'' = JStr planta \<and> planta \<noteq> []"
    using that by (simp add: consultas_por_planta)
  ultimately show ?thesis
    by (simp add: campo_def filtro_activo_omitido filtro_activo_false)
qed

theorem activo_por_defecto_witness:
  "map (\<lambda>q. (modelo q, operacion q, propiedad (campo (argumentos q) ''where'') ''activo''))
     (consultas (obtenerMateriales (almacen_fijo []) sin_parametros []))
     = [(Materiales, FindMany, JBool True)]
   \<and> map (\<lambda>q. (modelo q, operacion q, propiedad (campo (argumentos q) ''where'') ''activo''))
     (consultas (obtenerUbicaciones runtime_ejemplo (almacen_fijo [])
        \<lparr>params = [], query = [(''activo'', JStr (lit ''false''))]\<rparr> []))
     = [(Ubicacion, FindMany, JBool False)]
   \<and> map (\<lambda>q. (modelo q, operacion q, propiedad (campo (argumentos q) ''where'') ''activo''))
     (consultas (obtenerUbicacionesPorPlanta runtime_ejemplo (almacen_fijo [])
        \<lparr>params = [(''planta'', JStr (lit ''1''))],
          query = [(''activo'', JStr (lit ''false''))]\<rparr> []))
     = [(Ubicacion, FindMany, JBool False)]"
proof -
  let ?dado = "\<lparr>params = [(''planta'', JStr (lit ''1''))],
                 query = [(''activo'', JStr (lit ''false''))]\<rparr>"
  have omitido: "campo (query sin_parametros) ''activo'' = JUndefined"
    by (simp add: sin_parametros_def campo_def)
  have dado: "campo (query \<lparr>params = [], query = [(''activo'', JStr (lit ''false''))]\<rparr>)
      ''activo'' = JStr (lit ''false'')"
    "campo (query ?dado) ''activo'' = JStr (lit ''false'')"
    by (simp_all add: campo_def)
  have planta: "campo (params ?dado) ''planta'' = JStr (lit ''1'') \<and> lit ''1'' \<noteq> []"
    by (simp add: campo_def lit_def)
  show ?thesis
    using activo_por_defecto [where req = sin_parametros and db = "almacen_fijo []"
        and res = "[]" and rt = runtime_ejemplo and planta = "[]"]
      activo_por_defecto [where req = "\<lparr>params = [], query = [(''activo'', JStr (lit ''false''))]\<rparr>"
        and db = "almacen_fijo []" and res = "[]" and rt = runtime_ejemplo and planta = "[]"]
      activo_por_defecto [where req = ?dado and db = "almacen_fijo []" and res = "[]"
        and rt = runtime_ejemplo and planta = "lit ''1''"]
      omitido dado planta
    by simp
qed

subsection \<open>The summary\<close>

lemma consultas_resumen:
  "consultas (obtenerResumenMantenedores K db req res) =
      [\<lparr>modelo = Materiales, operacion = Count,
         argumentos = [(''where'', JObj [(''activo'', JBool True)])]\<rparr>,
       \<lparr>modelo = Proveedores, operacion = Count,
         argumentos = [(''where'', JObj [(''activo'', JBool True)])]\<rparr>,
       \<lparr>modelo = Ubicacion, operacion = Count,
         argumentos = [(''where'', JObj [(''activo'', JBool True)])]\<rparr>,
       \<lparr>modelo = Temporadas_app, operacion = FindFirst,
         argumentos = [(''where'', JObj [(''activa'', JBool True)])]\<rparr>,
       \<lparr>modelo = Tipo_movimientos_app, operacion = Count,
         argumentos = [(''where'', JObj [(''activo'', JBool True)])]\<rparr>]"
  by (simp add: obtenerResumenMantenedores_def consultas_atrapar_fst fst_await Promise_all_def
      prisma_count_def prisma_findFirst_def)

lemma Promise_all_rechaza:
  "isl (snd p1) \<or> isl (snd p2) \<or> isl (snd p3) \<or> isl (snd p4) \<or> isl (snd p5) \<Longrightarrow>
   \<exists>e. Promise_all p1 p2 p3 p4 p5 = (fst p1 @ fst p2 @ fst p3 @ fst p4 @ fst p5, Inl e)"
  by (auto simp: Promise_all_def isl_def split: sum.splits)


text \<open>
  C4. The summary handler sends its five queries; when the store rejects any one of
  them, the handler writes exactly one response, with status 500 and the code
  \<open>ERROR_OBTENER_RESUMEN_MANTENEDORES\<close>, and its body carries no \<open>datos\<close>.
\<close>

theorem resumen_falla_entero:
  assumes "\<exists>q \<in> set (consultas (obtenerResumenMantenedores K db req res)). rechazada db q"
  shows "escrito (obtenerResumenMantenedores K db req res) =
      res @ [\<lparr>estado = JNum 500,
               cuerpo = [(''exito'', JBool False),
                         (''mensaje'', JStr (lit ''Error al obtener resumen de mantenedores'')),
                         (''codigo'', JStr (lit ''ERROR_OBTENER_RESUMEN_MANTENEDORES''))]\<rparr>]
    \<and> campo (cuerpo (last (escrito (obtenerResumenMantenedores K db req res)))) ''datos''
        = JUndefined
    \<and> map (\<lambda>q. (modelo q, operacion q)) (consultas (obtenerResumenMantenedores K db req res))
        = [(Materiales, Count), (Proveedores, Count), (Ubicacion, Count),
           (Temporadas_app, FindFirst), (Tipo_movimientos_app, Count)]"
proof -
  let ?w = "[(''where'', JObj [(''activo'', JBool True)])]"
  let ?wa = "[(''where'', JObj [(''activa'', JBool True)])]"
  from assms have "isl (snd (prisma_count db Materiales ?w))
      \<or> isl (snd (prisma_count db Proveedores ?w))
      \<or> isl (snd (prisma_count db Ubicacion ?w))
      \<or> isl (snd (prisma_findFirst db Temporadas_app ?wa))
      \<or> isl (snd (prisma_count db Tipo_movimientos_app ?w))"
    by (auto simp: consultas_resumen rechazada_def prisma_count_def prisma_findFirst_def)
  from Promise_all_rechaza [OF this] obtain e qs where
    "Promise_all (prisma_count db Materiales ?w) (prisma_count db Proveedores ?w)
       (prisma_count db Ubicacion ?w) (prisma_findFirst db Temporadas_app ?wa)
       (prisma_count db Tipo_movimientos_app ?w) = (qs, Inl e)"
    by blast
  then have "escrito (obtenerResumenMantenedores K db req res) =
      res @ [\<lparr>estado = JNum 500,
               cuerpo = [(''exito'', JBool False),
                         (''mensaje'', JStr (lit ''Error al obtener resumen de mantenedores'')),
                         (''codigo'', JStr (lit ''ERROR_OBTENER_RESUMEN_MANTENEDORES''))]\<rparr>]"
    by (simp add: obtenerResumenMantenedores_def await_Inl atrapar_Inl)
  then show ?thesis by (simp add: campo_def consultas_resumen)
qed

theorem resumen_falla_entero_witness:
  "(\<exists>q \<in> set (consultas (obtenerResumenMantenedores \<lparr>PLANTAS = [], UNIDADES_MEDIDA = []\<rparr>
        almacen_caido sin_parametros [])). rechazada almacen_caido q)
   \<and> map estado (escrito (obtenerResumenMantenedores \<lparr>PLANTAS = [], UNIDADES_MEDIDA = []\<rparr>
        almacen_caido sin_parametros [])) = [JNum 500]"
proof -
  have h: "\<exists>q \<in> set (consultas (obtenerResumenMantenedores \<lparr>PLANTAS = [], UNIDADES_MEDIDA = []\<rparr>
        almacen_caido sin_parametros [])). rechazada almacen_caido q"
    by (simp add: consultas_resumen rechazada_def almacen_caido_def)
  show ?thesis
    using h resumen_falla_entero [OF h] by simp
qed

lemma exito_escrito:
  "exito res datos (JStr m) JUndefined =
     res @ [\<lparr>estado = JNum 200,
              cuerpo = [(''exito'', JBool True), (''mensaje'', JStr m), (''datos'', datos),
                        (''total'', total_de datos)]\<rparr>]"
  by (simp add: exito_def status_json_def por_defecto_def)






subsection \<open>Materials\<close>

text \<open>
  C7. The material listing answers the rows found, each reshaped by
  \<open>formatear_material\<close>, and the material-by-code handler the row found, reshaped the same
  way; the reshaped row's \<open>requiere_frio\<close> is \<open>true\<close> exactly when the row's \<open>frio\<close> is
  the string \<open>Si\<close> or that string with an acute accent on the i, and \<open>false\<close> for every
  other value, \<open>null\<close> and an absent \<open>frio\<close> included.
\<close>

theorem requiere_frio_exacto:
  "propiedad (formatear_material material) ''requiere_frio'' =
     JBool (campo material ''frio'' = JStr (lit ''Si'')
            \<or> campo material ''frio'' = JStr [0x53, 0xED])
   \<and> (findMany db Materiales
         [(''where'', JObj [(''activo'', filtro_activo req)]),
          (''select'', seleccion_material),
          (''orderBy'', JObj [(''nombre_material'', JStr (lit ''asc''))])] = Inr filas \<longrightarrow>
       (\<exists>r. escrito (obtenerMateriales db req res) = res @ [r]
            \<and> campo (cuerpo r) ''datos'' = JArr (map formatear_material filas)))
   \<and> (findFirst db Materiales
         [(''where'', JObj [(''codigo_ranco'', campo (params req) ''codigo''),
                            (''activo'', JBool True)]),
          (''select'', seleccion_material)] = Inr (Some material) \<longrightarrow>
       (\<exists>r. escrito (obtenerMaterialPorCodigo rt db req res) = res @ [r]
            \<and> campo (cuerpo r) ''datos'' = formatear_material material))"
  by (simp add: formatear_material_def obtenerMateriales_def obtenerMaterialPorCodigo_def
      prisma_findMany_def prisma_findFirst_def await_Inr atrapar_Inr exito_escrito)
    (simp add: campo_def)

theorem requiere_frio_exacto_witness:
  "map (\<lambda>m. propiedad m ''requiere_frio'')
     (case campo (cuerpo (last (escrito (obtenerMateriales
        (almacen_fijo [[(''frio'', JStr (lit ''Si''))], [(''frio'', JStr [0x53, 0xED])],
                       [(''frio'', JNull)], [(''id'', JNum 4)], [(''frio'', JStr (lit ''No''))],
                       [(''frio'', JStr (lit ''SI''))], [(''frio'', JBool True)]])
        sin_parametros [])))) ''datos'' of JArr ms \<Rightarrow> ms | _ \<Rightarrow> [])
     = [JBool True, JBool True, JBool False, JBool False, JBool False, JBool False, JBool False]
   \<and> propiedad (campo (cuerpo (last (escrito (obtenerMaterialPorCodigo runtime_ejemplo
        (almacen_fijo [[(''frio'', JStr [0x53, 0xED])]])
        \<lparr>params = [(''codigo'', JStr (lit ''M1''))], query = []\<rparr> [])))) ''datos'')
       ''requiere_frio'' = JBool True"
proof -
  let ?filas = "[[(''frio'', JStr (lit ''Si''))], [(''frio'', JStr [0x53, 0xED])],
                 [(''frio'', JNull)], [(''id'', JNum 4)], [(''frio'', JStr (lit ''No''))],
                 [(''frio'', JStr (lit ''SI''))], [(''frio'', JBool True)]]"
  have "\<exists>r. escrito (obtenerMateriales (almacen_fijo ?filas) sin_parametros []) = [] @ [r]
            \<and> campo (cuerpo r) ''datos'' = JArr (map formatear_material ?filas)"
    using requiere_frio_exacto [where db = "almacen_fijo ?filas" and req = sin_parametros
        and filas = ?filas and res = "[]"]
    by (simp add: almacen_fijo_def)
  moreover have "\<exists>r. escrito (obtenerMaterialPorCodigo runtime_ejemplo
        (almacen_fijo [[(''frio'', JStr [0x53, 0xED])]])
        \<lparr>params = [(''codigo'', JStr (lit ''M1''))], query = []\<rparr> []) = [] @ [r]
            \<and> campo (cuerpo r) ''datos'' = formatear_material [(''frio'', JStr [0x53, 0xED])]"
    using requiere_frio_exacto [where material = "[(''frio'', JStr [0x53, 0xED])]"
        and db = "almacen_fijo [[(''frio'', JStr [0x53, 0xED])]]"
        and req = "\<lparr>params = [(''codigo'', JStr (lit ''M1''))], query = []\<rparr>"
        and res = "[]" and rt = runtime_ejemplo]
    by (simp add: almacen_fijo_def)
  ultimately show ?thesis
    by (auto simp: formatear_material_def campo_def lit_def)
qed

subsection \<open>The store is only read\<close>

lemma efecto_almacen_lectura:
  "list_all (\<lambda>q. \<not> muta (operacion q)) qs \<Longrightarrow> efecto_almacen escribir qs s = s"
  by (induction qs arbitrary: s) (simp_all add: efecto_almacen_def)

lemma lecturas_await_findMany:
  "list_all (\<lambda>q. \<not> muta (operacion q))
     (consultas (atrapar res (await (prisma_findMany db t args) resto) aviso mensaje codigo))"
  by (simp add: consultas_findMany)

lemma lecturas_await_findFirst:
  "list_all (\<lambda>q. \<not> muta (operacion q))
     (consultas (atrapar res (await (prisma_findFirst db t args) resto) aviso mensaje codigo))"
  by (simp add: consultas_findFirst)

lemma lecturas_de_cada_metodo:
  "list_all (\<lambda>q. \<not> muta (operacion q)) (consultas (obtenerPlantas rt K req res))"
  "list_all (\<lambda>q. \<not> muta (operacion q)) (consultas (obtenerMateriales db req res))"
  "list_all (\<lambda>q. \<not> muta (operacion q)) (consultas (obtenerMaterialPorCodigo rt db req res))"
  "list_all (\<lambda>q. \<not> muta (operacion q)) (consultas (obtenerProveedores rt db req res))"
  "list_all (\<lambda>q. \<not> muta (operacion q)) (consultas (obtenerProveedorPorCodigo rt db req res))"
  "list_all (\<lambda>q. \<not> muta (operacion q)) (consultas (obtenerUbicaciones rt db req res))"
  "list_all (\<lambda>q. \<not> muta (operacion q))
     (consultas (obtenerUbicacionesPorPlanta rt db req res))"
  "list_all (\<lambda>q. \<not> muta (operacion q)) (consultas (obtenerTemporadas db req res))"
  "list_all (\<lambda>q. \<not> muta (operacion q)) (consultas (obtenerTemporadaActiva db req res))"
  "list_all (\<lambda>q. \<not> muta (operacion q)) (consultas (obtenerTiposMovimiento db req res))"
  "list_all (\<lambda>q. \<not> muta (operacion q)) (consultas (obtenerUnidadesMedida rt K req res))"
  "list_all (\<lambda>q. \<not> muta (operacion q)) (consultas (obtenerResumenMantenedores K db req res))"
proof -
  show "list_all (\<lambda>q. \<not> muta (operacion q)) (consultas (obtenerPlantas rt K req res))"
    by (simp add: obtenerPlantas_def consultas_atrapar_fst)
  show "list_all (\<lambda>q. \<not> muta (operacion q)) (consultas (obtenerMateriales db req res))"
    unfolding obtenerMateriales_def by (rule lecturas_await_findMany)
  show "list_all (\<lambda>q. \<not> muta (operacion q)) (consultas (obtenerMaterialPorCodigo rt db req res))"
    by (simp add: obtenerMaterialPorCodigo_def Let_def consultas_findFirst)
  show "list_all (\<lambda>q. \<not> muta (operacion q)) (consultas (obtenerProveedores rt db req res))"
    unfolding obtenerProveedores_def by (rule lecturas_await_findMany)
  show "list_all (\<lambda>q. \<not> muta (operacion q)) (consultas (obtenerProveedorPorCodigo rt db req res))"
    by (simp add: obtenerProveedorPorCodigo_def Let_def consultas_atrapar_fst fst_await
        prisma_findFirst_def split: json.splits)
  show "list_all (\<lambda>q. \<not> muta (operacion q)) (consultas (obtenerUbicaciones rt db req res))"
    unfolding obtenerUbicaciones_def by (rule lecturas_await_findMany)
  show "list_all (\<lambda>q. \<not> muta (operacion q))
     (consultas (obtenerUbicacionesPorPlanta rt db req res))"
    by (simp add: obtenerUbicacionesPorPlanta_def Let_def consultas_atrapar_fst fst_await
        prisma_findMany_def split: json.splits)
  show "list_all (\<lambda>q. \<not> muta (operacion q)) (consultas (obtenerTemporadas db req res))"
    unfolding obtenerTemporadas_def by (rule lecturas_await_findMany)
  show "list_all (\<lambda>q. \<not> muta (operacion q)) (consultas (obtenerTemporadaActiva db req res))"
    unfolding obtenerTemporadaActiva_def by (rule lecturas_await_findFirst)
  show "list_all (\<lambda>q. \<not> muta (operacion q)) (consultas (obtenerTiposMovimiento db req res))"
    unfolding obtenerTiposMovimiento_def by (rule lecturas_await_findMany)
  show "list_all (\<lambda>q. \<not> muta (operacion q))
     (consultas (obtenerUnidadesMedida rt K req res))"
    by (simp add: obtenerUnidadesMedida_def consultas_atrapar_fst)
  show "list_all (\<lambda>q. \<not> muta (operacion q)) (consultas (obtenerResumenMantenedores K db req res))"
    by (simp add: consultas_resumen)
qed

text \<open>
  C9. Whatever the request and whatever the store answers, every query a handler of the
  controller sends is a \<open>findMany\<close>, a \<open>findFirst\<close> or a \<open>count\<close>, none of the writing
  operations, so the store after the handler is the store before it.
\<close>

theorem controlador_solo_lee:
  "\<forall>metodo \<in> set (ControladorMantenedores rt K db).
     (\<forall>q \<in> set (consultas (metodo req res)).
        operacion q \<in> {FindMany, FindFirst, Count} \<and> \<not> muta (operacion q))
     \<and> efecto_almacen escribir (consultas (metodo req res)) s = s"
proof -
  have lee: "operacion q \<in> {FindMany, FindFirst, Count}" if "\<not> muta (operacion q)" for q :: consulta
    using that by (cases "operacion q") simp_all
  have "list_all (\<lambda>q. \<not> muta (operacion q)) (consultas (metodo req res))"
    if "metodo \<in> set (ControladorMantenedores rt K db)" for metodo
    using that by (auto simp: ControladorMantenedores_def lecturas_de_cada_metodo)
  then show ?thesis
    by (auto simp: efecto_almacen_lectura list_all_iff dest: lee)
qed

theorem controlador_solo_lee_witness:
  "obtenerResumenMantenedores \<lparr>PLANTAS = [], UNIDADES_MEDIDA = []\<rparr> (almacen_fijo [])
     \<in> set (ControladorMantenedores runtime_ejemplo \<lparr>PLANTAS = [], UNIDADES_MEDIDA = []\<rparr>
             (almacen_fijo []))
   \<and> length (consultas (obtenerResumenMantenedores \<lparr>PLANTAS = [], UNIDADES_MEDIDA = []\<rparr>
        (almacen_fijo []) sin_parametros [])) = 5
   \<and> efecto_almacen (\<lambda>q n. Suc n)
       (consultas (obtenerResumenMantenedores \<lparr>PLANTAS = [], UNIDADES_MEDIDA = []\<rparr>
          (almacen_fijo []) sin_parametros [])) (0::nat) = 0"
proof -
  have m: "obtenerResumenMantenedores \<lparr>PLANTAS = [], UNIDADES_MEDIDA = []\<rparr> (almacen_fijo [])
     \<in> set (ControladorMantenedores runtime_ejemplo \<lparr>PLANTAS = [], UNIDADES_MEDIDA = []\<rparr>
             (almacen_fijo []))"
    by (simp add: ControladorMantenedores_def)
  show ?thesis
    using m controlador_solo_lee [where rt = runtime_ejemplo
        and K = "\<lparr>PLANTAS = [], UNIDADES_MEDIDA = []\<rparr>" and db = "almacen_fijo []"
        and req = sin_parametros and res = "[]" and escribir = "\<lambda>q n. Suc n" and s = "0::nat",
        THEN bspec, OF m]
    by (simp add: consultas_resumen)
qed

subsection \<open>Synthetic codes\<close>

lemma valor_numeral_snoc:
  "valor_numeral R (Z @ [c]) = valor_numeral R Z * R + the (valor_digito c)"
  by (simp add: valor_numeral_def)

lemma valor_digito_decimal: "d < 10 \<Longrightarrow> valor_digito (0x30 + d) = Some d"
  by (simp add: valor_digito_def)

lemma digitos_decimales: "list_all es_decimal (digitos n)"
proof (induction n rule: digitos.induct)
  case (1 n)
  show ?case
  proof (cases "n < 10")
    case True
    then show ?thesis by (simp add: digitos.simps [of n] es_decimal_def)
  next
    case False
    have "n mod 10 < 10" by simp
    then have "es_decimal (0x30 + n mod 10)" unfolding es_decimal_def by linarith
    with False "1.IH" show ?thesis by (simp add: digitos.simps [of n])
  qed
qed

lemma valor_digitos: "valor_numeral 10 (digitos n) = n"
proof (induction n rule: digitos.induct)
  case (1 n)
  show ?case
  proof (cases "n < 10")
    case True
    then show ?thesis
      by (simp add: digitos.simps [of n] valor_numeral_def valor_digito_decimal)
  next
    case False
    with "1.IH" show ?thesis
      by (simp add: digitos.simps [of n] valor_numeral_snoc valor_digito_decimal)
  qed
qed

lemma digitos_no_vacio: "digitos n \<noteq> []"
  by (subst digitos.simps) simp



lemma padStart_ceros:
  "padStart S 3 (lit ''0'') = replicate (3 - length S) 0x30 @ S"
proof -
  have "concat (replicate k [48::nat]) = replicate k 48" for k
    by (induction k) simp_all
  then show ?thesis
    by (simp add: padStart_def lit_def Let_def)
qed

lemma valor_ceros: "valor_numeral 10 (replicate k 0x30 @ Z) = valor_numeral 10 Z"
proof -
  have "foldl (\<lambda>a c. a * 10 + the (valor_digito c)) 0 (replicate k 0x30) = 0"
    by (induction k) (simp_all add: valor_digito_def)
  then show ?thesis by (simp add: valor_numeral_def)
qed


lemma codigo_sintetico_natural:
  "0 \<le> n \<Longrightarrow> n < 2 ^ 53 \<Longrightarrow>
   codigo_sintetico rt prefijo (JNum n) =
     Inr (lit prefijo @ replicate (3 - length (digitos (nat n))) 0x30 @ digitos (nat n))"
  by (simp add: codigo_sintetico_def toString_def numero_a_cadena_def padStart_ceros)











subsection \<open>Supplier by code\<close>

lemma replace_prefijo: "startsWith s p \<Longrightarrow> replace s p r = r @ drop (length p) s"
  by (cases s) (auto simp: startsWith_def)

lemma numero_exacto:
  assumes "n < 2 ^ 53"
  shows "numero negativo n = JNum (if negativo then - int n else int n)"
proof -
  have "(2::nat) ^ 53 \<le> 2 ^ 1024" by (rule power_increasing) simp_all
  with assms have "\<not> 2 ^ 1024 \<le> n" by linarith
  with assms show ?thesis by (simp add: numero_def redondear_def)
qed

lemma es_Number_bajo: "\<bar>n\<bar> < 2 ^ 53 \<Longrightarrow> es_Number n"
proof -
  assume a: "\<bar>n\<bar> < 2 ^ 53"
  have "(2::int) ^ 53 \<le> 2 ^ 1024" by (rule power_increasing) simp_all
  with a have "\<bar>n\<bar> < 2 ^ 1024" by linarith
  moreover from a have "nat \<bar>n\<bar> < 2 ^ 53" by (simp add: nat_less_iff)
  ultimately show ?thesis by (simp add: es_Number_def redondear_def)
qed

lemma decimal_no_espacio: "es_decimal c \<Longrightarrow> \<not> es_espacio c"
  by (auto simp: es_decimal_def es_espacio_def)

lemma decimal_es_digito: "es_decimal c \<Longrightarrow> es_digito 10 c"
  by (auto simp: es_decimal_def es_digito_def valor_digito_def)

lemma takeWhile_decimales: "list_all es_decimal ds \<Longrightarrow> takeWhile (es_digito 10) ds = ds"
  by (induction ds) (simp_all add: decimal_es_digito)

lemma decimales_sin_prefijo_hex:
  "list_all es_decimal ds \<Longrightarrow> take 2 ds \<noteq> lit ''0x'' \<and> take 2 ds \<noteq> lit ''0X''"
proof (cases ds)
  case Nil
  then show ?thesis by (simp add: lit_def)
next
  case (Cons c cs)
  assume "list_all es_decimal ds"
  with Cons show ?thesis
    by (cases cs) (auto simp: lit_def es_decimal_def)
qed

lemma parseInt_decimales:
  assumes "ds \<noteq> []" and "list_all es_decimal ds" and "valor_numeral 10 ds < 2 ^ 53"
  shows "parseInt ds = JNum (int (valor_numeral 10 ds))"
proof -
  from assms(1,2) obtain c cs where ds: "ds = c # cs" and c: "es_decimal c"
    by (cases ds) simp_all
  have S: "dropWhile es_espacio ds = ds"
    using ds c by (simp add: decimal_no_espacio)
  have signo: "hd ds \<noteq> 0x2D" "hd ds \<noteq> 0x2B"
    using ds c by (simp_all add: es_decimal_def)
  have hex: "take 2 ds \<noteq> lit ''0x''" "take 2 ds \<noteq> lit ''0X''"
    using decimales_sin_prefijo_hex [OF assms(2)] by simp_all
  have Z: "takeWhile (es_digito 10) ds = ds"
    using assms(2) by (rule takeWhile_decimales)
  show ?thesis
    unfolding parseInt_def
    by (simp add: S signo hex Z assms(1) numero_exacto [OF assms(3)] Let_def)
qed

lemma whereClause_PROV:
  "startsWith codigo (lit ''PROV'') \<Longrightarrow>
   whereClause codigo =
     (if parseInt (drop 4 codigo) \<noteq> JNaN
      then [(''id'', parseInt (drop 4 codigo)), (''activo'', JBool True)]
      else [(''title'', JObj [(''contains'', JStr codigo),
                              (''mode'', JStr (lit ''insensitive''))]),
            (''activo'', JBool True)])"
proof -
  assume p: "startsWith codigo (lit ''PROV'')"
  have "length (lit ''PROV'') = 4" by (simp add: lit_def)
  with replace_prefijo [OF p, of "[]"] have "replace codigo (lit ''PROV'') [] = drop 4 codigo"
    by simp
  with p show ?thesis by (simp add: whereClause_def isNaN_def Let_def)
qed

lemma whereClause_otro:
  "\<not> startsWith codigo (lit ''PROV'') \<Longrightarrow>
   whereClause codigo =
     [(''title'', JObj [(''contains'', JStr codigo), (''mode'', JStr (lit ''insensitive''))]),
      (''activo'', JBool True)]"
  by (simp add: whereClause_def)


lemma numero_no_NaN: "numero negativo n \<noteq> JNaN"
  by (simp add: numero_def Let_def)

lemma es_digito_10: "es_digito 10 c = es_decimal c"
  by (auto simp: es_digito_def valor_digito_def es_decimal_def)

lemma takeWhile_vacio: "takeWhile P xs = [] \<longleftrightarrow> (case xs of [] \<Rightarrow> True | x # ys \<Rightarrow> \<not> P x)"
  by (cases xs) simp_all

lemma parseInt_es_numero: "parseInt s \<noteq> JNaN \<longleftrightarrow> empieza_numeral s"
proof -
  let ?r = "tras_signo s"
  show ?thesis
  proof (cases "take 2 ?r = lit ''0x'' \<or> take 2 ?r = lit ''0X''")
    case True
    then have "parseInt s \<noteq> JNaN \<longleftrightarrow> takeWhile (es_digito 16) (drop 2 ?r) \<noteq> []"
      by (auto simp: parseInt_def tras_signo_def Let_def numero_no_NaN)
    with True show ?thesis
      by (auto simp: empieza_numeral_def Let_def takeWhile_vacio split: list.splits)
  next
    case False
    then have "parseInt s \<noteq> JNaN \<longleftrightarrow> takeWhile (es_digito 10) ?r \<noteq> []"
      by (auto simp: parseInt_def tras_signo_def Let_def numero_no_NaN)
    with False show ?thesis
      by (auto simp: empieza_numeral_def Let_def takeWhile_vacio es_digito_10
          split: list.splits)
  qed
qed


text \<open>
  C2 (amended). For a \<open>codigo\<close> that is a non-empty string the supplier-by-code handler
  sends one \<open>findFirst\<close> on \<open>proveedores\<close> whose \<open>where\<close> is \<open>whereClause codigo\<close>. When
  \<open>codigo\<close> starts with \<open>PROV\<close> and \<open>parseInt\<close> of what follows is a number, the clause
  selects the active row whose \<open>id\<close> is that number; \<open>parseInt\<close> gives a number exactly
  when, after leading white space and one optional sign, what follows is \<open>0x\<close> or
  \<open>0X\<close> and then a hexadecimal digit, or is no such prefix and is a decimal digit. In
  particular for \<open>PROV\<close> followed only by decimal digits (of a value below \<open>2 ^ 53\<close>)
  the \<open>id\<close> is the value of the digits. In every other case the clause selects an
  active row whose \<open>title\<close> contains \<open>codigo\<close>, case-insensitively.
\<close>

theorem proveedor_por_codigo:
  "(startsWith codigo (lit ''PROV'') \<and> parseInt (drop 4 codigo) \<noteq> JNaN \<longrightarrow>
      whereClause codigo = [(''id'', parseInt (drop 4 codigo)), (''activo'', JBool True)])
   \<and> (\<not> (startsWith codigo (lit ''PROV'') \<and> parseInt (drop 4 codigo) \<noteq> JNaN) \<longrightarrow>
      whereClause codigo =
        [(''title'', JObj [(''contains'', JStr codigo), (''mode'', JStr (lit ''insensitive''))]),
         (''activo'', JBool True)])
   \<and> (patron_PROV_digitos codigo \<and> valor_numeral 10 (drop 4 codigo) < 2 ^ 53 \<longrightarrow>
      whereClause codigo =
        [(''id'', JNum (int (valor_numeral 10 (drop 4 codigo)))), (''activo'', JBool True)])
   \<and> (campo (params req) ''codigo'' = JStr codigo \<and> codigo \<noteq> [] \<longrightarrow>
      consultas (obtenerProveedorPorCodigo rt db req res) =
        [\<lparr>modelo = Proveedores, operacion = FindFirst,
          argumentos = [(''where'', JObj (whereClause codigo)),
                        (''select'', seleccion_proveedor)]\<rparr>])
   \<and> (parseInt (drop 4 codigo) \<noteq> JNaN \<longleftrightarrow> empieza_numeral (drop 4 codigo))"
proof -
  have uno: "whereClause codigo = [(''id'', parseInt (drop 4 codigo)), (''activo'', JBool True)]"
    if "startsWith codigo (lit ''PROV'') \<and> parseInt (drop 4 codigo) \<noteq> JNaN"
    using that by (simp add: whereClause_PROV)
  have dos: "whereClause codigo =
        [(''title'', JObj [(''contains'', JStr codigo), (''mode'', JStr (lit ''insensitive''))]),
         (''activo'', JBool True)]"
    if "\<not> (startsWith codigo (lit ''PROV'') \<and> parseInt (drop 4 codigo) \<noteq> JNaN)"
    using that by (cases "startsWith codigo (lit ''PROV'')")
      (simp_all add: whereClause_PROV whereClause_otro)
  have tres: "whereClause codigo =
        [(''id'', JNum (int (valor_numeral 10 (drop 4 codigo)))), (''activo'', JBool True)]"
    if "patron_PROV_digitos codigo \<and> valor_numeral 10 (drop 4 codigo) < 2 ^ 53"
  proof -
    from that have p: "startsWith codigo (lit ''PROV'')"
      and "drop 4 codigo \<noteq> []" and "list_all es_decimal (drop 4 codigo)"
      and "valor_numeral 10 (drop 4 codigo) < 2 ^ 53"
      by (simp_all add: patron_PROV_digitos_def)
    then have "parseInt (drop 4 codigo) = JNum (int (valor_numeral 10 (drop 4 codigo)))"
      by (intro parseInt_decimales)
    with p show ?thesis by (simp add: whereClause_PROV)
  qed
  have cuatro: "consultas (obtenerProveedorPorCodigo rt db req res) =
        [\<lparr>modelo = Proveedores, operacion = FindFirst,
          argumentos = [(''where'', JObj (whereClause codigo)),
                        (''select'', seleccion_proveedor)]\<rparr>]"
    if "campo (params req) ''codigo'' = JStr codigo \<and> codigo \<noteq> []"
    using that
    by (simp add: obtenerProveedorPorCodigo_def Let_def es_falso_def consultas_atrapar_fst
        fst_await prisma_findFirst_def)
  note cinco = parseInt_es_numero [of "drop 4 codigo"]
  from uno dos tres cuatro cinco show ?thesis by blast
qed

theorem proveedor_por_codigo_witness:
  "whereClause (lit ''PROV007'') = [(''id'', JNum 7), (''activo'', JBool True)]
   \<and> whereClause (lit ''Acme'') =
       [(''title'', JObj [(''contains'', JStr (lit ''Acme'')),
                          (''mode'', JStr (lit ''insensitive''))]),
        (''activo'', JBool True)]
   \<and> whereClause (lit ''PROV'') =
       [(''title'', JObj [(''contains'', JStr (lit ''PROV'')),
                          (''mode'', JStr (lit ''insensitive''))]),
        (''activo'', JBool True)]
   \<and> whereClause (lit ''PROV0xZ'') =
       [(''title'', JObj [(''contains'', JStr (lit ''PROV0xZ'')),
                          (''mode'', JStr (lit ''insensitive''))]),
        (''activo'', JBool True)]
   \<and> map argumentos (consultas (obtenerProveedorPorCodigo runtime_ejemplo (almacen_fijo [])
         \<lparr>params = [(''codigo'', JStr (lit ''PROV007''))], query = []\<rparr> [])) =
       [[(''where'', JObj [(''id'', JNum 7), (''activo'', JBool True)]),
         (''select'', seleccion_proveedor)]]"
proof -
  let ?req = "\<lparr>params = [(''codigo'', JStr (lit ''PROV007''))], query = []\<rparr>"
  have a: "patron_PROV_digitos (lit ''PROV007'')
      \<and> valor_numeral 10 (drop 4 (lit ''PROV007'')) < 2 ^ 53"
    and a': "valor_numeral 10 (drop 4 (lit ''PROV007'')) = 7"
    by (simp_all add: patron_PROV_digitos_def startsWith_def es_decimal_def valor_numeral_def
        valor_digito_def lit_def)
  have b: "\<not> (startsWith (lit ''Acme'') (lit ''PROV'')
      \<and> parseInt (drop 4 (lit ''Acme'')) \<noteq> JNaN)"
    by (simp add: startsWith_def lit_def)
  have c: "\<not> (startsWith (lit ''PROV'') (lit ''PROV'')
      \<and> parseInt (drop 4 (lit ''PROV'')) \<noteq> JNaN)"
    by (simp add: parseInt_def lit_def)
  have "\<not> empieza_numeral (drop 4 (lit ''PROV0xZ''))"
    by (simp add: empieza_numeral_def tras_signo_def es_espacio_def es_digito_def
        valor_digito_def lit_def)
  with proveedor_por_codigo [where codigo = "lit ''PROV0xZ''", THEN conjunct2, THEN conjunct2,
      THEN conjunct2, THEN conjunct2]
  have z: "\<not> (startsWith (lit ''PROV0xZ'') (lit ''PROV'')
      \<and> parseInt (drop 4 (lit ''PROV0xZ'')) \<noteq> JNaN)"
    by blast
  have d: "campo (params ?req) ''codigo'' = JStr (lit ''PROV007'') \<and> lit ''PROV007'' \<noteq> []"
    by (simp add: campo_def lit_def)
  have "whereClause (lit ''PROV007'') =
      [(''id'', JNum (int (valor_numeral 10 (drop 4 (lit ''PROV007''))))), (''activo'', JBool True)]"
    by (rule proveedor_por_codigo [THEN conjunct2, THEN conjunct2, THEN conjunct1, THEN mp])
      (rule a)
  then have uno: "whereClause (lit ''PROV007'') = [(''id'', JNum 7), (''activo'', JBool True)]"
    by (simp add: a')
  have "consultas (obtenerProveedorPorCodigo runtime_ejemplo (almacen_fijo []) ?req [])
      = [\<lparr>modelo = Proveedores, operacion = FindFirst,
          argumentos = [(''where'', JObj (whereClause (lit ''PROV007''))),
                        (''select'', seleccion_proveedor)]\<rparr>]"
    by (rule proveedor_por_codigo [THEN conjunct2, THEN conjunct2, THEN conjunct2,
          THEN conjunct1, THEN mp]) (rule d)
  then have cinco: "map argumentos
      (consultas (obtenerProveedorPorCodigo runtime_ejemplo (almacen_fijo []) ?req []))
      = [[(''where'', JObj [(''id'', JNum 7), (''activo'', JBool True)]),
          (''select'', seleccion_proveedor)]]"
    by (simp add: uno)
  have dos: "whereClause (lit ''Acme'') =
       [(''title'', JObj [(''contains'', JStr (lit ''Acme'')),
                          (''mode'', JStr (lit ''insensitive''))]),
        (''activo'', JBool True)]"
    by (rule proveedor_por_codigo [THEN conjunct2, THEN conjunct1, THEN mp]) (rule b)
  have tres: "whereClause (lit ''PROV'') =
       [(''title'', JObj [(''contains'', JStr (lit ''PROV'')),
                          (''mode'', JStr (lit ''insensitive''))]),
        (''activo'', JBool True)]"
    by (rule proveedor_por_codigo [THEN conjunct2, THEN conjunct1, THEN mp]) (rule c)
  have cuatro: "whereClause (lit ''PROV0xZ'') =
       [(''title'', JObj [(''contains'', JStr (lit ''PROV0xZ'')),
                          (''mode'', JStr (lit ''insensitive''))]),
        (''activo'', JBool True)]"
    by (rule proveedor_por_codigo [THEN conjunct2, THEN conjunct1, THEN mp]) (rule z)
  from uno dos tres cuatro cinco show ?thesis by simp
qed

text \<open>
  C2 as stated sends every code outside the pattern to the match on the name. The code
  \<open>PROV-5\<close> is outside the pattern (a minus sign follows \<open>PROV\<close>), and is looked up by
  the id \<open>-5\<close>.
\<close>

theorem proveedor_por_codigo_counterexample:
  "\<not> patron_PROV_digitos (lit ''PROV-5'')
   \<and> whereClause (lit ''PROV-5'') = [(''id'', JNum (- 5)), (''activo'', JBool True)]
   \<and> whereClause (lit ''PROV-5'') \<noteq>
       [(''title'', JObj [(''contains'', JStr (lit ''PROV-5'')),
                          (''mode'', JStr (lit ''insensitive''))]),
        (''activo'', JBool True)]"
proof -
  have p: "startsWith (lit ''PROV-5'') (lit ''PROV'')"
    by (simp add: startsWith_def lit_def)
  have n: "parseInt (drop 4 (lit ''PROV-5'')) = JNum (- 5)"
    by (simp add: parseInt_def lit_def es_espacio_def es_digito_def valor_digito_def
        valor_numeral_def numero_def redondear_def)
  have "\<not> patron_PROV_digitos (lit ''PROV-5'')"
    by (simp add: patron_PROV_digitos_def es_decimal_def lit_def)
  then show ?thesis
    by (simp add: whereClause_PROV [OF p] n)
qed

text \<open>
  The two directions agree: the code synthesized for a supplier's id is looked up by that
  id.
\<close>

lemma codigo_sintetico_se_resuelve:
  assumes "0 \<le> n" and "n < 2 ^ 53" and "codigo_sintetico rt ''PROV'' (JNum n) = Inr codigo"
  shows "whereClause codigo = [(''id'', JNum n), (''activo'', JBool True)]"
proof -
  let ?ds = "replicate (3 - length (digitos (nat n))) 0x30 @ digitos (nat n)"
  have l: "length (lit ''PROV'') = 4" by (simp add: lit_def)
  from assms have c: "codigo = lit ''PROV'' @ ?ds"
    by (simp add: codigo_sintetico_natural)
  then have p: "startsWith codigo (lit ''PROV'')" and d: "drop 4 codigo = ?ds"
    by (simp_all add: startsWith_def l)
  have v: "valor_numeral 10 ?ds = nat n"
    by (simp add: valor_ceros valor_digitos)
  have "list_all es_decimal ?ds"
    using digitos_decimales [of "nat n"] by (auto simp: list_all_iff es_decimal_def)
  moreover have "?ds \<noteq> []" by (simp add: digitos_no_vacio)
  moreover have "valor_numeral 10 ?ds < 2 ^ 53"
    using assms(1,2) v by (simp add: nat_less_iff)
  ultimately have "parseInt ?ds = JNum (int (valor_numeral 10 ?ds))"
    by (intro parseInt_decimales)
  with assms(1) v have "parseInt (drop 4 codigo) = JNum n" by (simp add: d)
  with p show ?thesis by (simp add: whereClause_PROV)
qed

end
